theory Spec2Isabelle
  imports Complex_Main
begin

section \<open>JavaScript values of the request bodies\<close>

text \<open>
  The handlers read fields of JSON request bodies. A field of a line is one of the
  scalar JSON values; \<open>JUndefined\<close> is an absent field. The numbers of these fields are
  taken to be integers of magnitude below \<open>10^21\<close>, where \<open>parseInt\<close> and the template
  literal print the number itself; arrays and objects as fields of a line are outside
  the model. A text is held as its UTF-8 bytes. A JavaScript Number that may be \<open>NaN\<close>
  is an \<open>int option\<close> with \<open>None\<close> for \<open>NaN\<close>; prices and money amounts are rationals,
  so the rounding and the overflow of doubles are not modelled.
\<close>

datatype jsval = JUndefined | JNull | JBool bool | JNum int | JStr string

text \<open>Truthiness, as tested by \<open>!x\<close> and \<open>x && ...\<close>.\<close>

fun truthy :: "jsval \<Rightarrow> bool" where
  "truthy JUndefined = False"
| "truthy JNull = False"
| "truthy (JBool b) = b"
| "truthy (JNum n) = (n \<noteq> 0)"
| "truthy (JStr s) = (s \<noteq> [])"

text \<open>The operator \<open>!\<close>.\<close>

definition falsy :: "jsval \<Rightarrow> bool" where
  "falsy v = (\<not> truthy v)"

fun show_nat :: "nat \<Rightarrow> string" where
  "show_nat n =
     (if n < 10 then [''0123456789'' ! n]
      else show_nat (n div 10) @ [''0123456789'' ! (n mod 10)])"

declare show_nat.simps [simp del]

definition show_int :: "int \<Rightarrow> string" where
  "show_int i = (if i < 0 then CHR ''-'' # show_nat (nat (- i)) else show_nat (nat i))"

text \<open>A Number inside a template literal.\<close>

definition show_number :: "int option \<Rightarrow> string" where
  "show_number n = (case n of None \<Rightarrow> ''NaN'' | Some i \<Rightarrow> show_int i)"

text \<open>A request value inside a template literal.\<close>

fun to_string :: "jsval \<Rightarrow> string" where
  "to_string JUndefined = ''undefined''"
| "to_string JNull = ''null''"
| "to_string (JBool b) = (if b then ''true'' else ''false'')"
| "to_string (JNum n) = show_int n"
| "to_string (JStr s) = s"

text \<open>\<open>String.prototype.includes\<close>: does the text contain the pattern?\<close>

fun starts_with :: "string \<Rightarrow> string \<Rightarrow> bool" where
  "starts_with s [] = True"
| "starts_with [] (p # ps) = False"
| "starts_with (c # cs) (p # ps) = (c = p \<and> starts_with cs ps)"

fun str_includes :: "string \<Rightarrow> string \<Rightarrow> bool" where
  "str_includes [] pat = (pat = [])"
| "str_includes (c # cs) pat = (starts_with (c # cs) pat \<or> str_includes cs pat)"

subsection \<open>parseInt\<close>

text \<open>
  The white space and line terminators of JavaScript, which \<open>parseInt\<close>, \<open>trim\<close> and
  the conversion of a text to a Number skip: the six ASCII characters, U+00A0, U+1680,
  U+2000 to U+200A, U+2028, U+2029, U+202F, U+205F, U+3000 and U+FEFF, in UTF-8.
\<close>

definition is_ws1 :: "char \<Rightarrow> bool" where
  "is_ws1 c = List.member [CHR '' '', CHR 0x09, CHR 0x0A, CHR 0x0B, CHR 0x0C, CHR 0x0D] c"

definition is_ws2 :: "char \<Rightarrow> char \<Rightarrow> bool" where
  "is_ws2 a b = (a = CHR 0xC2 \<and> b = CHR 0xA0)"

definition is_ws3 :: "char \<Rightarrow> char \<Rightarrow> char \<Rightarrow> bool" where
  "is_ws3 a b c =
     (if a = CHR 0xE1 then b = CHR 0x9A \<and> c = CHR 0x80
      else if a = CHR 0xE2 then
        (if b = CHR 0x80
         then List.member [CHR 0x80, CHR 0x81, CHR 0x82, CHR 0x83, CHR 0x84, CHR 0x85, CHR 0x86,
                           CHR 0x87, CHR 0x88, CHR 0x89, CHR 0x8A, CHR 0xA8, CHR 0xA9, CHR 0xAF] c
         else b = CHR 0x81 \<and> c = CHR 0x9F)
      else if a = CHR 0xE3 then b = CHR 0x80 \<and> c = CHR 0x80
      else a = CHR 0xEF \<and> b = CHR 0xBB \<and> c = CHR 0xBF)"

text \<open>Skipping the white space at the start of a text.\<close>

fun drop_ws :: "string \<Rightarrow> string" where
  "drop_ws [] = []"
| "drop_ws [a] = (if is_ws1 a then [] else [a])"
| "drop_ws [a, b] = (if is_ws1 a then drop_ws [b] else if is_ws2 a b then [] else [a, b])"
| "drop_ws (a # b # c # s) =
     (if is_ws1 a then drop_ws (b # c # s)
      else if is_ws2 a b then drop_ws (c # s)
      else if is_ws3 a b c then drop_ws s
      else a # b # c # s)"

text \<open>The same from the end, on the reversed text.\<close>

fun drop_ws_rev :: "string \<Rightarrow> string" where
  "drop_ws_rev [] = []"
| "drop_ws_rev [a] = (if is_ws1 a then [] else [a])"
| "drop_ws_rev [b, a] = (if is_ws1 b then drop_ws_rev [a] else if is_ws2 a b then [] else [b, a])"
| "drop_ws_rev (c # b # a # s) =
     (if is_ws1 c then drop_ws_rev (b # a # s)
      else if is_ws2 b c then drop_ws_rev (a # s)
      else if is_ws3 a b c then drop_ws_rev s
      else c # b # a # s)"

text \<open>\<open>String.prototype.trim\<close>.\<close>

definition trim :: "string \<Rightarrow> string" where
  "trim s = rev (drop_ws_rev (rev (drop_ws s)))"

fun index_of :: "char \<Rightarrow> string \<Rightarrow> nat option" where
  "index_of c [] = None"
| "index_of c (x # xs) =
     (if c = x then Some 0 else (case index_of c xs of None \<Rightarrow> None | Some i \<Rightarrow> Some (Suc i)))"

definition dec_digit :: "char \<Rightarrow> nat option" where
  "dec_digit c = index_of c ''0123456789''"

definition hex_digit :: "char \<Rightarrow> nat option" where
  "hex_digit c =
     (case index_of c ''0123456789abcdef'' of
        Some i \<Rightarrow> Some i
      | None \<Rightarrow> (case index_of c ''ABCDEF'' of Some i \<Rightarrow> Some (10 + i) | None \<Rightarrow> None))"

text \<open>
  The longest prefix of digits, read in the given radix; \<open>None\<close> when the text starts
  with no digit.
\<close>

fun read_digits :: "(char \<Rightarrow> nat option) \<Rightarrow> nat \<Rightarrow> string \<Rightarrow> nat option \<Rightarrow> nat option" where
  "read_digits dv radix [] acc = acc"
| "read_digits dv radix (c # cs) acc =
     (case dv c of
        None \<Rightarrow> acc
      | Some d \<Rightarrow>
          read_digits dv radix cs (Some (radix * (case acc of None \<Rightarrow> 0 | Some a \<Rightarrow> a) + d)))"

definition read_unsigned :: "string \<Rightarrow> nat option" where
  "read_unsigned s =
     (if starts_with s ''0x'' \<or> starts_with s ''0X''
      then read_digits hex_digit 16 (drop 2 s) None
      else read_digits dec_digit 10 s None)"

definition parseInt_string :: "string \<Rightarrow> int option" where
  "parseInt_string s =
     (let t = drop_ws s in
      case t of
        [] \<Rightarrow> None
      | c # cs \<Rightarrow>
          if c = CHR ''-'' then map_option (\<lambda>n. - int n) (read_unsigned cs)
          else if c = CHR ''+'' then map_option int (read_unsigned cs)
          else map_option int (read_unsigned t))"

fun parseInt :: "jsval \<Rightarrow> int option" where
  "parseInt (JNum n) = Some n"
| "parseInt (JStr s) = parseInt_string s"
| "parseInt v = None"

text \<open>Comparisons of Numbers: every comparison with \<open>NaN\<close> is false.\<close>

definition num_le :: "int option \<Rightarrow> int \<Rightarrow> bool" where
  "num_le a b = (case a of None \<Rightarrow> False | Some x \<Rightarrow> x \<le> b)"

definition num_gt :: "int option \<Rightarrow> int \<Rightarrow> bool" where
  "num_gt a b = (case a of None \<Rightarrow> False | Some x \<Rightarrow> x > b)"

text \<open>\<open>a < b\<close> with the Number \<open>b\<close> possibly \<open>NaN\<close>.\<close>

definition lt_num :: "int \<Rightarrow> int option \<Rightarrow> bool" where
  "lt_num a b = (case b of None \<Rightarrow> False | Some y \<Rightarrow> a < y)"

subsection \<open>The conversion to a Number and the operator ==\<close>

datatype number = NaN | Infinity bool | Finite rat

text \<open>A literal in radix 16, 8 or 2: digits of the radix, at least one, and nothing else.\<close>

fun all_digits :: "(char \<Rightarrow> nat option) \<Rightarrow> nat \<Rightarrow> string \<Rightarrow> nat \<Rightarrow> nat option" where
  "all_digits dv radix [] acc = Some acc"
| "all_digits dv radix (c # cs) acc =
     (case dv c of None \<Rightarrow> None | Some d \<Rightarrow> all_digits dv radix cs (radix * acc + d))"

definition digits_only :: "(char \<Rightarrow> nat option) \<Rightarrow> nat \<Rightarrow> string \<Rightarrow> nat option" where
  "digits_only dv radix s = (if s = [] then None else all_digits dv radix s 0)"

definition radix_literal :: "(char \<Rightarrow> nat option) \<Rightarrow> nat \<Rightarrow> string \<Rightarrow> number" where
  "radix_literal dv radix s =
     (case digits_only dv radix s of None \<Rightarrow> NaN | Some n \<Rightarrow> Finite (of_nat n))"

definition is_digit :: "char \<Rightarrow> bool" where
  "is_digit c = (dec_digit c \<noteq> None)"

definition digits_value :: "string \<Rightarrow> nat" where
  "digits_value s = (case read_digits dec_digit 10 s None of None \<Rightarrow> 0 | Some n \<Rightarrow> n)"

text \<open>The exponent part of a decimal literal, which may be absent.\<close>

definition exponent_part :: "string \<Rightarrow> int option" where
  "exponent_part r =
     (case r of
        [] \<Rightarrow> Some 0
      | c # cs \<Rightarrow>
          if c = CHR ''e'' \<or> c = CHR ''E'' then
            (case cs of
               [] \<Rightarrow> None
             | sg # ds \<Rightarrow>
                 if sg = CHR ''-'' then map_option (\<lambda>n. - int n) (digits_only dec_digit 10 ds)
                 else if sg = CHR ''+'' then map_option int (digits_only dec_digit 10 ds)
                 else map_option int (digits_only dec_digit 10 cs))
          else None)"

definition power10 :: "int \<Rightarrow> rat" where
  "power10 e = (if 0 \<le> e then 10 ^ nat e else 1 / 10 ^ nat (- e))"

text \<open>
  A decimal literal without its sign: \<open>Infinity\<close>, or digits with an optional fraction
  and exponent, with a digit before or after the point.
\<close>

definition unsigned_decimal :: "string \<Rightarrow> number" where
  "unsigned_decimal u =
     (if u = ''Infinity'' then Infinity True
      else
        let ip = takeWhile is_digit u;
            r1 = dropWhile is_digit u;
            point = starts_with r1 ''.'';
            fp = (if point then takeWhile is_digit (tl r1) else []);
            r2 = (if point then dropWhile is_digit (tl r1) else r1)
        in if ip = [] \<and> fp = [] then NaN
           else (case exponent_part r2 of
                   None \<Rightarrow> NaN
                 | Some e \<Rightarrow>
                     Finite ((of_nat (digits_value ip) + of_nat (digits_value fp) / 10 ^ length fp)
                             * power10 e)))"

definition negate :: "number \<Rightarrow> number" where
  "negate n = (case n of NaN \<Rightarrow> NaN | Infinity pos \<Rightarrow> Infinity (\<not> pos) | Finite r \<Rightarrow> Finite (- r))"

text \<open>The conversion of a text to a Number; the empty text and white space are 0.\<close>

definition StringToNumber :: "string \<Rightarrow> number" where
  "StringToNumber s =
     (let t = trim s in
      case t of
        [] \<Rightarrow> Finite 0
      | c # cs \<Rightarrow>
          if starts_with t ''0x'' \<or> starts_with t ''0X'' then radix_literal hex_digit 16 (drop 2 t)
          else if starts_with t ''0o'' \<or> starts_with t ''0O''
          then radix_literal (\<lambda>c. index_of c ''01234567'') 8 (drop 2 t)
          else if starts_with t ''0b'' \<or> starts_with t ''0B''
          then radix_literal (\<lambda>c. index_of c ''01'') 2 (drop 2 t)
          else if c = CHR ''-'' then negate (unsigned_decimal cs)
          else if c = CHR ''+'' then unsigned_decimal cs
          else unsigned_decimal t)"

fun ToNumber :: "jsval \<Rightarrow> number" where
  "ToNumber JUndefined = NaN"
| "ToNumber JNull = Finite 0"
| "ToNumber (JBool b) = Finite (if b then 1 else 0)"
| "ToNumber (JNum n) = Finite (of_int n)"
| "ToNumber (JStr s) = StringToNumber s"

text \<open>Equality of Numbers: \<open>NaN\<close> equals nothing.\<close>

fun number_eq :: "number \<Rightarrow> number \<Rightarrow> bool" where
  "number_eq (Finite a) (Finite b) = (a = b)"
| "number_eq (Infinity a) (Infinity b) = (a = b)"
| "number_eq x y = False"

text \<open>
  The operator \<open>==\<close> on scalars: \<open>null\<close> and \<open>undefined\<close> equal each other and
  nothing else, two texts are compared as texts, and every other pair as Numbers.
\<close>

fun loose_eq :: "jsval \<Rightarrow> jsval \<Rightarrow> bool" where
  "loose_eq JUndefined y = (y = JUndefined \<or> y = JNull)"
| "loose_eq JNull y = (y = JUndefined \<or> y = JNull)"
| "loose_eq x JUndefined = False"
| "loose_eq x JNull = False"
| "loose_eq (JStr a) (JStr b) = (a = b)"
| "loose_eq x y = number_eq (ToNumber x) (ToNumber y)"

text \<open>
  \<open>includes\<close> of a Mongoose array, which looks for the value with \<open>indexOf\<close>, and
  \<open>indexOf\<close> compares with \<open>==\<close>.
\<close>

definition MongooseArray_includes :: "jsval list \<Rightarrow> jsval \<Rightarrow> bool" where
  "MongooseArray_includes this obj = list_ex (\<lambda>x. loose_eq obj x) this"

subsection \<open>Document identifiers\<close>

text \<open>
  \<open>mongoose.Types.ObjectId.isValid\<close> holds of a text in the canonical form of an
  identifier, 24 hexadecimal digits, and of every number. The store keeps an
  identifier in lower case, which is also what \<open>toString()\<close> of a stored identifier
  prints. A query by a number fails in the cast of the number to an identifier.
\<close>

definition ObjectId_isValid :: "jsval \<Rightarrow> bool" where
  "ObjectId_isValid v =
     (case v of
        JStr s \<Rightarrow> length s = 24 \<and> list_all (\<lambda>c. hex_digit c \<noteq> None) s
      | JNum n \<Rightarrow> True
      | _ \<Rightarrow> False)"

definition hex_lower :: "char \<Rightarrow> char" where
  "hex_lower c =
     (case index_of c ''ABCDEF'' of None \<Rightarrow> c | Some i \<Rightarrow> ''abcdef'' ! i)"

definition ObjectId :: "string \<Rightarrow> string" where
  "ObjectId s = map hex_lower s"

definition ObjectId_cast_error :: "jsval \<Rightarrow> string option" where
  \<open>ObjectId_cast_error v =
     (case v of
        JNum n \<Rightarrow> Some (''Cast to ObjectId failed for value "'' @ show_int n
                        @ ''" (type number) at path "_id" for model "Product"'')
      | _ \<Rightarrow> None)\<close>


subsection \<open>A JSON value of any shape\<close>

text \<open>
  The field \<open>total_amount\<close> of an order request is used as it comes, so it is modelled
  as any value \<open>JSON.parse\<close> can give: a scalar, an array, or an object with its own
  members.
\<close>

datatype json =
  JsonNull | JsonBool bool | JsonNumber rat | JsonString string
  | JsonArray "json list" | JsonObject "(string \<times> json) list"

fun json_truthy :: "json \<Rightarrow> bool" where
  "json_truthy JsonNull = False"
| "json_truthy (JsonBool b) = b"
| "json_truthy (JsonNumber r) = (r \<noteq> 0)"
| "json_truthy (JsonString s) = (s \<noteq> [])"
| "json_truthy (JsonArray elements) = True"
| "json_truthy (JsonObject members) = True"

text \<open>
  The conversion of an object to a primitive calls its \<open>valueOf\<close> and its
  \<open>toString\<close>. An object of \<open>JSON.parse\<close> inherits both; the inherited \<open>valueOf\<close>
  returns the object, and the inherited \<open>toString\<close> returns a text. A member of its
  own named \<open>toString\<close> hides the inherited one and is never a function, and the
  conversion throws a \<open>TypeError\<close>. An array is converted by \<open>join\<close>, which converts
  every element but \<open>null\<close>.
\<close>

fun ToPrimitive_throws :: "json \<Rightarrow> bool" where
  "ToPrimitive_throws (JsonObject members) = List.member (map fst members) ''toString''"
| "ToPrimitive_throws (JsonArray elements) = list_ex ToPrimitive_throws elements"
| "ToPrimitive_throws v = False"

text \<open>
  The Number that the text of a value converts to: an array of one element prints as
  its element, an array of several holds a comma, an object prints as
  \<open>[object Object]\<close>.
\<close>

fun text_number :: "json \<Rightarrow> number" where
  "text_number JsonNull = Finite 0"
| "text_number (JsonBool b) = NaN"
| "text_number (JsonNumber r) = Finite r"
| "text_number (JsonString s) = StringToNumber s"
| "text_number (JsonObject members) = NaN"
| "text_number (JsonArray []) = Finite 0"
| "text_number (JsonArray [x]) = text_number x"
| "text_number (JsonArray (x # y # rest)) = NaN"

text \<open>The Number a value converts to, when the conversion does not throw.\<close>

definition json_ToNumber :: "json \<Rightarrow> number" where
  "json_ToNumber v = (case v of JsonBool b \<Rightarrow> Finite (if b then 1 else 0) | _ \<Rightarrow> text_number v)"

section \<open>The documents of the store\<close>

text \<open>
  The collections of \<open>productsModel.js\<close>, \<open>ordersModel.js\<close> and \<open>cartModel.js\<close>. Each
  collection is a map from the identifier of a document to the document; a cart is
  looked up by its user. Field names carry the prefix of their record.
\<close>

record product =
  p_name :: string
  p_quantity :: int
  p_sizes :: "jsval list"
  p_price :: rat

record order_line =
  ol_product_id :: string
  ol_quantity :: int
  ol_size :: string
  ol_price :: rat

datatype order_status = Pending | Processing | Shipped | Delivered | Cancelled

record order =
  o_user_id :: string
  o_products :: "order_line list"
  o_subtotal :: rat
  o_shipping :: rat
  o_total_amount :: rat
  o_order_status :: order_status

record cart_item =
  ci_product :: string
  ci_quantity :: int
  ci_size :: string
  ci_price :: rat

record cart =
  c_items :: "cart_item list"
  c_total :: rat

record db =
  products :: "string \<rightharpoonup> product"
  orders :: "string \<rightharpoonup> order"
  carts :: "string \<rightharpoonup> cart"

text \<open>
  What the store and the driver decide, and the handlers cannot: a document that
  \<open>findById\<close> returns from a snapshot older than the live collection (an entry of
  \<open>stale_reads\<close>; none when no other request writes concurrently), the identifier the
  driver gives a new order, and the error message of a write the store rejects.
\<close>

record store_env =
  stale_reads :: "string \<rightharpoonup> product"
  new_order_id :: string
  order_write_error :: "string option"
  cart_write_error :: "string option"

text \<open>
  \<open>session.withTransaction\<close>: the writes of the body are kept when it returns and
  discarded when it throws. An error is the message of the thrown \<open>Error\<close>. What the
  body printed on the console stays printed either way.
\<close>

datatype log_event = SubtotalMismatch rat json

definition withTransaction ::
  "(db \<Rightarrow> log_event list \<times> (string + 'a \<times> db)) \<Rightarrow> db \<Rightarrow> log_event list \<times> (string + 'a) \<times> db" where
  "withTransaction body d =
     (case body d of
        (lg, Inl e) \<Rightarrow> (lg, Inl e, d)
      | (lg, Inr (r, d')) \<Rightarrow> (lg, Inr r, d'))"

section \<open>The order model: ordersModel.js\<close>

text \<open>The \<open>pre('save')\<close> middleware of the order schema.\<close>

definition pre_save :: "order \<Rightarrow> order" where
  "pre_save this =
     (let calculatedTotal = o_subtotal this + o_shipping this in
      if \<bar>o_total_amount this - calculatedTotal\<bar> > 1 / 100
      then this\<lparr>o_total_amount := calculatedTotal\<rparr>
      else this)"

text \<open>
  The \<open>min: 0\<close> validators of the schema, which run at every save before the
  \<open>pre('save')\<close> middleware. The \<open>required\<close> validators hold of every value of the
  record.
\<close>

definition Order_validate :: "order \<Rightarrow> bool" where
  "Order_validate this =
     (list_all (\<lambda>l. 0 \<le> ol_price l) (o_products this) \<and> 0 \<le> o_subtotal this
      \<and> 0 \<le> o_shipping this \<and> 0 \<le> o_total_amount this)"

text \<open>\<open>newOrder.save({ session })\<close> of a new document.\<close>

definition Order_save_new :: "store_env \<Rightarrow> order \<Rightarrow> db \<Rightarrow> string + order \<times> db" where
  "Order_save_new env this d =
     (if \<not> Order_validate this
      then Inl ''Order validation failed: a value is less than minimum allowed value (0).''
      else case order_write_error env of
        Some msg \<Rightarrow> Inl msg
      | None \<Rightarrow>
          if orders d (new_order_id env) \<noteq> None
          then Inl ''E11000 duplicate key error collection: orders''
          else let saved = pre_save this
               in Inr (saved, d\<lparr>orders := (orders d)(new_order_id env \<mapsto> saved)\<rparr>))"

text \<open>
  \<open>order.save({ session })\<close> of a document read from the store, which validates the
  document it was read into in the same way.
\<close>

definition Order_save :: "store_env \<Rightarrow> string \<Rightarrow> order \<Rightarrow> db \<Rightarrow> string + order \<times> db" where
  "Order_save env oid this d =
     (if \<not> Order_validate this
      then Inl ''Order validation failed: a value is less than minimum allowed value (0).''
      else case order_write_error env of
        Some msg \<Rightarrow> Inl msg
      | None \<Rightarrow>
          let saved = pre_save this
          in Inr (saved, d\<lparr>orders := (orders d)(oid \<mapsto> saved)\<rparr>))"

section \<open>Order placement: createOrder of ordersController.js\<close>

record totals =
  t_subtotal :: rat
  t_shipping :: rat
  t_tax :: rat
  t_total :: rat

definition calculateOrderTotals :: "rat \<Rightarrow> totals" where
  "calculateOrderTotals subtotal =
     (let shipping = (if subtotal > 100 then 0 else 10);
          tax = subtotal * (8 / 100);
          total = subtotal + shipping + tax
      in \<lparr>t_subtotal = subtotal, t_shipping = shipping, t_tax = tax, t_total = total\<rparr>)"

text \<open>
  One entry of \<open>req.body.products\<close>. An entry that is not an object is answered as an
  entry with none of the three fields is.
\<close>

record order_item =
  it_product_id :: jsval
  it_quantity :: jsval
  it_size :: jsval

text \<open>
  The body of the request: \<open>rq_products\<close> is \<open>None\<close> when the field is absent or not an
  array; \<open>rq_total_amount\<close> is \<open>None\<close> when the field is absent.
\<close>

record order_request =
  rq_products :: "order_item list option"
  rq_total_amount :: "json option"

text \<open>\<open>Product.findById(id).session(session)\<close>.\<close>

definition Product_findById :: "store_env \<Rightarrow> string \<Rightarrow> db \<Rightarrow> product option" where
  "Product_findById env pid d =
     (case stale_reads env pid of Some p \<Rightarrow> Some p | None \<Rightarrow> products d pid)"

text \<open>
  \<open>Product.updateOne({ _id, quantity: { $gte: quantity } }, { $inc: { quantity: -quantity } })\<close>:
  the conditional decrement, which returns \<open>modifiedCount\<close>; an increment by 0
  modifies nothing. The schema casts the filter, and the cast of \<open>NaN\<close> to a Number
  throws.
\<close>

definition Product_updateOne_dec :: "string \<Rightarrow> int option \<Rightarrow> db \<Rightarrow> string + nat \<times> db" where
  \<open>Product_updateOne_dec pid quantity d =
     (case quantity of
        None \<Rightarrow> Inl ''Cast to Number failed for value "NaN" (type number) at path "quantity" for model "Product"''
      | Some q \<Rightarrow>
          (case products d pid of
             None \<Rightarrow> Inr (0, d)
           | Some p \<Rightarrow>
               if p_quantity p \<ge> q
               then Inr (if q = 0 then 0 else 1,
                         d\<lparr>products := (products d)(pid \<mapsto> p\<lparr>p_quantity := p_quantity p - q\<rparr>)\<rparr>)
               else Inr (0, d)))\<close>

definition sold_out_message :: "string \<Rightarrow> string" where
  "sold_out_message name = ''Failed to update inventory for product '' @ name @ ''. Possibly sold out.''"

text \<open>
  The checks of one pass of the loop, up to the update: the identifier, the parsed
  quantity and the product read. \<open>findById\<close> casts the identifier before it reads.
\<close>

definition check_item :: "store_env \<Rightarrow> order_item \<Rightarrow> db \<Rightarrow> string + string \<times> int option \<times> product" where
  "check_item env item d =
     (if falsy (it_product_id item) \<or> falsy (it_quantity item) \<or> falsy (it_size item)
      then Inl ''Each product must have product_id, quantity, and size''
      else if \<not> ObjectId_isValid (it_product_id item)
      then Inl (''Invalid product ID format: '' @ to_string (it_product_id item))
      else
        let quantity = parseInt (it_quantity item) in
        if num_le quantity 0 \<or> num_gt quantity 10
        then Inl (''Invalid quantity: '' @ show_number quantity @ ''. Must be between 1 and 10'')
        else
          (case ObjectId_cast_error (it_product_id item) of
             Some e \<Rightarrow> Inl e
           | None \<Rightarrow>
               (case Product_findById env (ObjectId (to_string (it_product_id item))) d of
                  None \<Rightarrow> Inl (''Product with id '' @ to_string (it_product_id item) @ '' not found'')
                | Some product \<Rightarrow>
                    if \<not> MongooseArray_includes (p_sizes product) (it_size item)
                    then Inl (''Size '' @ to_string (it_size item) @ '' is not available for product ''
                              @ p_name product)
                    else if lt_num (p_quantity product) quantity
                    then Inl (''Insufficient quantity for product '' @ p_name product @ ''. Available: ''
                              @ show_int (p_quantity product) @ '', Requested: '' @ show_number quantity)
                    else Inr (ObjectId (to_string (it_product_id item)), quantity, product))))"

text \<open>
  One pass of the loop. The state is the store, \<open>orderProducts\<close> and
  \<open>calculatedSubtotal\<close>.
\<close>

definition process_item ::
  "store_env \<Rightarrow> order_item \<Rightarrow> db \<times> order_line list \<times> rat \<Rightarrow> string + db \<times> order_line list \<times> rat" where
  "process_item env item st =
     (case st of (d, orderProducts, calculatedSubtotal) \<Rightarrow>
        (case check_item env item d of
           Inl e \<Rightarrow> Inl e
         | Inr (pid, quantity, product) \<Rightarrow>
             (case Product_updateOne_dec pid quantity d of
                Inl e \<Rightarrow> Inl e
              | Inr (modifiedCount, d') \<Rightarrow>
                  if modifiedCount = 0 then Inl (sold_out_message (p_name product))
                  else
                    let q = (case quantity of None \<Rightarrow> 0 | Some n \<Rightarrow> n) in
                    Inr (d',
                         orderProducts @ [\<lparr>ol_product_id = pid, ol_quantity = q,
                                           ol_size = to_string (it_size item),
                                           ol_price = p_price product\<rparr>],
                         calculatedSubtotal + p_price product * of_int q))))"

fun process_items ::
  "store_env \<Rightarrow> order_item list \<Rightarrow> db \<times> order_line list \<times> rat \<Rightarrow> string + db \<times> order_line list \<times> rat" where
  "process_items env [] st = Inr st"
| "process_items env (item # rest) st =
     (case process_item env item st of Inl e \<Rightarrow> Inl e | Inr st' \<Rightarrow> process_items env rest st')"

text \<open>\<open>Cart.findOneAndUpdate({ user: userId }, { items: [], total: 0 }, { session })\<close>.\<close>

definition Cart_clear :: "store_env \<Rightarrow> string \<Rightarrow> db \<Rightarrow> string + db" where
  "Cart_clear env userId d =
     (case cart_write_error env of
        Some msg \<Rightarrow> Inl msg
      | None \<Rightarrow>
          (case carts d userId of
             None \<Rightarrow> Inr d
           | Some c \<Rightarrow> Inr (d\<lparr>carts := (carts d)(userId \<mapsto> c\<lparr>c_items := [], c_total := 0\<rparr>)\<rparr>)))"

text \<open>
  The test \<open>total_amount && Math.abs(calculatedSubtotal - total_amount) > 0.01\<close> and its
  warning. The subtraction converts \<open>total_amount\<close> to a Number, which throws for a
  value that has no primitive; a difference that is \<open>NaN\<close> is not above 0.01, an
  infinite one is.
\<close>

definition subtotal_warning :: "json option \<Rightarrow> rat \<Rightarrow> string + log_event list" where
  "subtotal_warning total_amount calculatedSubtotal =
     (case total_amount of
        None \<Rightarrow> Inr []
      | Some t \<Rightarrow>
          if \<not> json_truthy t then Inr []
          else if ToPrimitive_throws t then Inl ''Cannot convert object to primitive value''
          else (case json_ToNumber t of
                  NaN \<Rightarrow> Inr []
                | Infinity pos \<Rightarrow> Inr [SubtotalMismatch calculatedSubtotal t]
                | Finite r \<Rightarrow>
                    if \<bar>calculatedSubtotal - r\<bar> > 1 / 100
                    then Inr [SubtotalMismatch calculatedSubtotal t] else Inr []))"

text \<open>The callback of \<open>session.withTransaction\<close>.\<close>

definition createOrder_txn ::
  "store_env \<Rightarrow> string \<Rightarrow> json option \<Rightarrow> order_item list \<Rightarrow> db \<Rightarrow> log_event list \<times> (string + order \<times> db)" where
  "createOrder_txn env userId total_amount items d =
     (case process_items env items (d, [], 0) of
        Inl e \<Rightarrow> ([], Inl e)
      | Inr (d1, orderProducts, calculatedSubtotal) \<Rightarrow>
          let orderTotals = calculateOrderTotals calculatedSubtotal in
          (case subtotal_warning total_amount calculatedSubtotal of
             Inl e \<Rightarrow> ([], Inl e)
           | Inr lg \<Rightarrow>
               let newOrder = \<lparr>o_user_id = userId, o_products = orderProducts,
                               o_subtotal = t_subtotal orderTotals, o_shipping = t_shipping orderTotals,
                               o_total_amount = t_total orderTotals, o_order_status = Pending\<rparr>
               in (case Order_save_new env newOrder d1 of
                     Inl e \<Rightarrow> (lg, Inl e)
                   | Inr (saved, d2) \<Rightarrow>
                       (case Cart_clear env userId d2 of
                          Inl e \<Rightarrow> (lg, Inl e)
                        | Inr d3 \<Rightarrow> (lg, Inr (saved, d3))))))"

text \<open>The answer of a handler: the status code, the message and the order sent back.\<close>

record response =
  r_status :: nat
  r_message :: string
  r_order :: "order option"

text \<open>The \<open>catch\<close> block of \<open>createOrder\<close>.\<close>

definition createOrder_catch :: "string \<Rightarrow> response" where
  "createOrder_catch message =
     (if str_includes message ''Invalid'' \<or> str_includes message ''required''
      then \<lparr>r_status = 400, r_message = message, r_order = None\<rparr>
      else if str_includes message ''not found'' \<or> str_includes message ''not available''
      then \<lparr>r_status = 404, r_message = message, r_order = None\<rparr>
      else if str_includes message ''Insufficient'' \<or> str_includes message ''sold out''
      then \<lparr>r_status = 409, r_message = message, r_order = None\<rparr>
      else \<lparr>r_status = 500, r_message = ''Internal Server Error'', r_order = None\<rparr>)"

text \<open>
  The handler: the answer, the console warnings and the store after the request.
\<close>

definition createOrder ::
  "store_env \<Rightarrow> string \<Rightarrow> order_request \<Rightarrow> db \<Rightarrow> response \<times> log_event list \<times> db" where
  "createOrder env userId req d =
     (case rq_products req of
        None \<Rightarrow>
          (\<lparr>r_status = 400, r_message = ''Products array is required and cannot be empty'',
            r_order = None\<rparr>, [], d)
      | Some [] \<Rightarrow>
          (\<lparr>r_status = 400, r_message = ''Products array is required and cannot be empty'',
            r_order = None\<rparr>, [], d)
      | Some (item # rest) \<Rightarrow>
          (case withTransaction (createOrder_txn env userId (rq_total_amount req) (item # rest)) d of
             (lg, Inl e, d') \<Rightarrow> (createOrder_catch e, lg, d')
           | (lg, Inr savedOrder, d') \<Rightarrow>
               (\<lparr>r_status = 201, r_message = [], r_order = Some savedOrder\<rparr>, lg, d')))"


section \<open>The status of an order: updateOrderStatus and deleteOrder\<close>

text \<open>\<open>validStatuses.includes(status)\<close>, with the status it names.\<close>

definition status_of :: "jsval \<Rightarrow> order_status option" where
  "status_of v =
     (case v of
        JStr s \<Rightarrow>
          if s = ''Pending'' then Some Pending
          else if s = ''Processing'' then Some Processing
          else if s = ''Shipped'' then Some Shipped
          else if s = ''Delivered'' then Some Delivered
          else if s = ''Cancelled'' then Some Cancelled
          else None
      | _ \<Rightarrow> None)"

text \<open>\<open>Product.updateOne({ _id }, { $inc: { quantity: item.quantity } }, { session })\<close>.\<close>

definition Product_updateOne_inc :: "string \<Rightarrow> int \<Rightarrow> db \<Rightarrow> db" where
  "Product_updateOne_inc pid q d =
     (case products d pid of
        None \<Rightarrow> d
      | Some p \<Rightarrow> d\<lparr>products := (products d)(pid \<mapsto> p\<lparr>p_quantity := p_quantity p + q\<rparr>)\<rparr>)"

text \<open>
  The loop that restores the quantities. \<open>populated\<close> is the product collection as
  \<open>populate('products.product_id')\<close> read it: a line whose product is gone is populated
  with \<open>null\<close> and skipped.
\<close>

fun restore_quantities :: "(string \<rightharpoonup> product) \<Rightarrow> order_line list \<Rightarrow> db \<Rightarrow> db" where
  "restore_quantities populated [] d = d"
| "restore_quantities populated (item # rest) d =
     restore_quantities populated rest
       (if populated (ol_product_id item) \<noteq> None
        then Product_updateOne_inc (ol_product_id item) (ol_quantity item) d
        else d)"

definition updateOrderStatus_txn ::
  "store_env \<Rightarrow> string \<Rightarrow> order_status \<Rightarrow> db \<Rightarrow> log_event list \<times> (string + order \<times> db)" where
  "updateOrderStatus_txn env oid status d =
     (case orders d oid of
        None \<Rightarrow> ([], Inl ''Order not found'')
      | Some order \<Rightarrow>
          let oldStatus = o_order_status order;
              d1 = (if status = Cancelled \<and> (oldStatus = Pending \<or> oldStatus = Processing)
                    then restore_quantities (products d) (o_products order) d
                    else d)
          in (case Order_save env oid (order\<lparr>o_order_status := status\<rparr>) d1 of
                Inl e \<Rightarrow> ([], Inl e)
              | Inr (saved, d2) \<Rightarrow> ([], Inr (saved, d2))))"

definition updateOrderStatus :: "store_env \<Rightarrow> string \<Rightarrow> jsval \<Rightarrow> db \<Rightarrow> response \<times> db" where
  "updateOrderStatus env orderId status d =
     (if \<not> ObjectId_isValid (JStr orderId)
      then (\<lparr>r_status = 400, r_message = ''Invalid order ID format'', r_order = None\<rparr>, d)
      else if falsy status
      then (\<lparr>r_status = 400, r_message = ''Status is required'', r_order = None\<rparr>, d)
      else
        (case status_of status of
           None \<Rightarrow>
             (\<lparr>r_status = 400,
               r_message = ''Invalid status. Valid statuses are: Pending, Processing, Shipped, Delivered, Cancelled'',
               r_order = None\<rparr>, d)
         | Some s \<Rightarrow>
             (case withTransaction (updateOrderStatus_txn env (ObjectId orderId) s) d of
                (lg, Inl e, d') \<Rightarrow>
                  if e = ''Order not found''
                  then (\<lparr>r_status = 404, r_message = e, r_order = None\<rparr>, d')
                  else (\<lparr>r_status = 500, r_message = ''Internal Server Error'', r_order = None\<rparr>, d')
              | (lg, Inr updatedOrder, d') \<Rightarrow>
                  (\<lparr>r_status = 200, r_message = [], r_order = orders d' (ObjectId orderId)\<rparr>, d'))))"

text \<open>\<open>req.user\<close>, as the authentication middleware sets it.\<close>

record requester =
  u_id :: string
  u_role :: string

text \<open>\<open>Order.deleteOne({ _id: orderId }, { session })\<close>.\<close>

definition Order_deleteOne :: "store_env \<Rightarrow> string \<Rightarrow> db \<Rightarrow> string + db" where
  "Order_deleteOne env oid d =
     (case order_write_error env of
        Some msg \<Rightarrow> Inl msg
      | None \<Rightarrow> Inr (d\<lparr>orders := (orders d)(oid := None)\<rparr>))"

definition deleteOrder_txn ::
  "store_env \<Rightarrow> requester \<Rightarrow> string \<Rightarrow> db \<Rightarrow> log_event list \<times> (string + order \<times> db)" where
  "deleteOrder_txn env user oid d =
     (case orders d oid of
        None \<Rightarrow> ([], Inl ''Order not found'')
      | Some order \<Rightarrow>
          if u_role user \<noteq> ''admin'' \<and> o_user_id order \<noteq> u_id user
          then ([], Inl ''Access denied'')
          else
            let d1 = (if o_order_status order = Pending \<or> o_order_status order = Processing
                      then restore_quantities (products d) (o_products order) d
                      else d)
            in (case Order_deleteOne env oid d1 of
                  Inl e \<Rightarrow> ([], Inl e)
                | Inr d2 \<Rightarrow> ([], Inr (order, d2))))"

definition deleteOrder :: "store_env \<Rightarrow> requester \<Rightarrow> string \<Rightarrow> db \<Rightarrow> response \<times> db" where
  "deleteOrder env user orderId d =
     (if \<not> ObjectId_isValid (JStr orderId)
      then (\<lparr>r_status = 400, r_message = ''Invalid order ID format'', r_order = None\<rparr>, d)
      else
        (case withTransaction (deleteOrder_txn env user (ObjectId orderId)) d of
           (lg, Inl e, d') \<Rightarrow>
             if e = ''Order not found''
             then (\<lparr>r_status = 404, r_message = e, r_order = None\<rparr>, d')
             else if e = ''Access denied''
             then (\<lparr>r_status = 403, r_message = e, r_order = None\<rparr>, d')
             else (\<lparr>r_status = 500, r_message = ''Internal Server Error'', r_order = None\<rparr>, d')
         | (lg, Inr deletedOrder, d') \<Rightarrow>
             (\<lparr>r_status = 200, r_message = ''Order deleted successfully'',
               r_order = Some deletedOrder\<rparr>, d')))"

section \<open>The cart: addItemToCart\<close>

definition sanitizeInput :: "jsval \<Rightarrow> jsval" where
  "sanitizeInput input =
     (case input of
        JStr s \<Rightarrow> JStr (filter (\<lambda>c. c \<noteq> CHR ''<'' \<and> c \<noteq> CHR ''>'') (trim s))
      | _ \<Rightarrow> input)"

text \<open>The body of the request; an absent quantity takes the default 1.\<close>

record cart_request =
  cr_productId :: jsval
  cr_quantity :: jsval
  cr_size :: jsval

fun findIndex :: "('a \<Rightarrow> bool) \<Rightarrow> 'a list \<Rightarrow> nat option" where
  "findIndex P [] = None"
| "findIndex P (x # xs) =
     (if P x then Some 0 else (case findIndex P xs of None \<Rightarrow> None | Some i \<Rightarrow> Some (Suc i)))"

text \<open>The recalculated total: \<open>cart.items.reduce(...)\<close>.\<close>

definition cart_total :: "cart_item list \<Rightarrow> rat" where
  "cart_total items = foldl (\<lambda>total item. total + of_int (ci_quantity item) * ci_price item) 0 items"

text \<open>
  \<open>cart.save()\<close>, which writes the cart of the user. The store may reject the write.
\<close>

definition Cart_save :: "store_env \<Rightarrow> string \<Rightarrow> cart \<Rightarrow> db \<Rightarrow> string + db" where
  "Cart_save env user c d =
     (case cart_write_error env of
        Some msg \<Rightarrow> Inl msg
      | None \<Rightarrow> Inr (d\<lparr>carts := (carts d)(user \<mapsto> c)\<rparr>))"

text \<open>
  The handler answers with a status code. A quantity that parses to \<open>NaN\<close> passes every
  comparison and reaches \<open>cart.save()\<close>, where the cast of the line to the schema
  throws; so does a negative price, against \<open>min: 0\<close>, and so does \<open>findById\<close> of a
  number. All three end in the \<open>catch\<close> block.
\<close>

definition addItemToCart :: "store_env \<Rightarrow> string \<Rightarrow> cart_request \<Rightarrow> db \<Rightarrow> nat \<times> db" where
  "addItemToCart env user req d =
     (let productId = cr_productId req;
          quantity = (if cr_quantity req = JUndefined then JNum 1 else cr_quantity req);
          size = cr_size req
      in
      if falsy productId \<or> falsy size then (400, d)
      else if \<not> ObjectId_isValid productId then (400, d)
      else
        let sanitizedSize = sanitizeInput size;
            parsedQuantity = parseInt quantity
        in
        if num_le parsedQuantity 0 \<or> num_gt parsedQuantity 10 then (400, d)
        else
          (case ObjectId_cast_error productId of
             Some e \<Rightarrow> (500, d)
           | None \<Rightarrow>
          (case products d (ObjectId (to_string productId)) of
             None \<Rightarrow> (404, d)
           | Some product \<Rightarrow>
               if lt_num (p_quantity product) parsedQuantity then (400, d)
               else if \<not> MongooseArray_includes (p_sizes product) sanitizedSize then (400, d)
               else
                 let itemPrice = p_price product;
                     cart = (case carts d user of
                               None \<Rightarrow> \<lparr>c_items = [], c_total = 0\<rparr>
                             | Some c \<Rightarrow> c)
                 in
                 (case parsedQuantity of
                    None \<Rightarrow> (500, d)
                  | Some q \<Rightarrow>
                      (case findIndex (\<lambda>item. ci_product item = to_string productId
                                              \<and> JStr (ci_size item) = sanitizedSize) (c_items cart) of
                         Some existingItemIndex \<Rightarrow>
                           let existing = c_items cart ! existingItemIndex;
                               newQuantity = ci_quantity existing + q
                           in
                           if newQuantity > p_quantity product then (400, d)
                           else
                             let items = (c_items cart)[existingItemIndex := existing\<lparr>ci_quantity := newQuantity\<rparr>]
                             in (case Cart_save env user \<lparr>c_items = items, c_total = cart_total items\<rparr> d of
                                   Inl e \<Rightarrow> (500, d)
                                 | Inr d' \<Rightarrow> (201, d'))
                       | None \<Rightarrow>
                           if itemPrice < 0 then (500, d)
                           else
                             let items = c_items cart @
                                           [\<lparr>ci_product = ObjectId (to_string productId), ci_quantity = q,
                                             ci_size = to_string sanitizedSize, ci_price = itemPrice\<rparr>]
                             in (case Cart_save env user \<lparr>c_items = items, c_total = cart_total items\<rparr> d of
                                   Inl e \<Rightarrow> (500, d)
                                 | Inr d' \<Rightarrow> (201, d')))))))"


section \<open>Quantities used in the statements\<close>


text \<open>The quantity the lines of an order ask of one product, and the value of the lines.\<close>

definition requested :: "order_line list \<Rightarrow> string \<Rightarrow> int" where
  "requested ls pid = sum_list (map ol_quantity (filter (\<lambda>l. ol_product_id l = pid) ls))"

text \<open>
  The product a line of the request names, and the quantity the lines of a request ask
  of one product.
\<close>

definition item_key :: "order_item \<Rightarrow> string" where
  "item_key item = ObjectId (to_string (it_product_id item))"

definition asked :: "order_item list \<Rightarrow> string \<Rightarrow> int" where
  "asked items pid =
     sum_list (map (\<lambda>item. case parseInt (it_quantity item) of None \<Rightarrow> 0 | Some q \<Rightarrow> q)
                   (filter (\<lambda>item. item_key item = pid) items))"

definition lines_subtotal :: "order_line list \<Rightarrow> rat" where
  "lines_subtotal ls = sum_list (map (\<lambda>l. ol_price l * of_int (ol_quantity l)) ls)"

subsection \<open>A small store for the examples\<close>

definition runner_id :: string where
  "runner_id = ''507f1f77bcf86cd799439011''"

definition runner :: product where
  "runner = \<lparr>p_name = ''Runner'', p_quantity = 5, p_sizes = [JStr ''9'', JStr ''10''], p_price = 20\<rparr>"

definition shop :: db where
  "shop = \<lparr>products = [runner_id \<mapsto> runner], orders = Map.empty,
           carts = [''u1'' \<mapsto> \<lparr>c_items = [\<lparr>ci_product = runner_id, ci_quantity = 8, ci_size = ''10'',
                                               ci_price = 20\<rparr>], c_total = 160\<rparr>]\<rparr>"

definition quiet :: store_env where
  "quiet = \<lparr>stale_reads = Map.empty, new_order_id = ''65a000000000000000000001'',
            order_write_error = None, cart_write_error = None\<rparr>"

definition line :: "int \<Rightarrow> order_item" where
  "line q = \<lparr>it_product_id = JStr runner_id, it_quantity = JNum q, it_size = JStr ''10''\<rparr>"

definition warehouse :: db where
  "warehouse = shop\<lparr>products := [runner_id \<mapsto> runner\<lparr>p_quantity := 20\<rparr>]\<rparr>"

definition kiosk :: db where
  "kiosk = shop\<lparr>products := [runner_id \<mapsto> runner\<lparr>p_name := ''Lace'', p_price := 1 / 10\<rparr>]\<rparr>"

definition order_id :: string where
  "order_id = ''65a000000000000000000009''"

definition runner_order :: "order_status \<Rightarrow> order" where
  "runner_order st =
     \<lparr>o_user_id = ''u1'',
      o_products = [\<lparr>ol_product_id = runner_id, ol_quantity = 3, ol_size = ''10'', ol_price = 20\<rparr>],
      o_subtotal = 60, o_shipping = 10, o_total_amount = 70, o_order_status = st\<rparr>"

text \<open>The store after the order of three units: two are left.\<close>

definition ledger :: "order_status \<Rightarrow> db" where
  "ledger st = shop\<lparr>products := [runner_id \<mapsto> runner\<lparr>p_quantity := 2\<rparr>],
                    orders := [order_id \<mapsto> runner_order st]\<rparr>"

definition penny_ledger :: db where
  "penny_ledger =
     shop\<lparr>orders := [order_id \<mapsto> (runner_order Pending)
              \<lparr>o_products := [\<lparr>ol_product_id = runner_id, ol_quantity = 1, ol_size = ''10'',
                               ol_price = 1 / 10\<rparr>],
               o_subtotal := 1 / 10, o_total_amount := 2527 / 250\<rparr>]\<rparr>"

text \<open>
  A concurrent request has taken three of the five units: the live store holds two,
  and \<open>findById\<close> still returns the product with five.
\<close>

definition racing :: store_env where
  "racing = quiet\<lparr>stale_reads := [runner_id \<mapsto> runner]\<rparr>"

definition invalid_runner :: product where
  "invalid_runner = runner\<lparr>p_name := ''Invalid Runner''\<rparr>"

definition racing_invalid :: store_env where
  "racing_invalid = quiet\<lparr>stale_reads := [runner_id \<mapsto> invalid_runner]\<rparr>"

definition outlet :: db where
  "outlet = shop\<lparr>products := [runner_id \<mapsto> invalid_runner\<lparr>p_quantity := 2\<rparr>]\<rparr>"

section \<open>Properties of order placement\<close>

lemma starts_with_append: "starts_with (pat @ ys) pat"
  by (induction pat) auto

lemma str_includes_prefix: "str_includes (pat @ ys) pat"
  by (cases "pat @ ys") (auto simp: starts_with_append dest: sym)

lemma str_includes_append_right: "str_includes ys pat \<Longrightarrow> str_includes (xs @ ys) pat"
  by (induction xs) auto

lemma sold_out_includes: "str_includes (sold_out_message n) ''sold out''"
proof -
  have "str_includes (''sold out'' @ ''.'') ''sold out''"
    by (rule str_includes_prefix)
  then have "str_includes ((''Failed to update inventory for product '' @ n @ ''. Possibly '')
               @ (''sold out'' @ ''.'')) ''sold out''"
    by (rule str_includes_append_right)
  then show ?thesis
    by (simp add: sold_out_message_def)
qed

lemma createOrder_catch_status: "r_status (createOrder_catch e) \<noteq> 201"
  by (simp add: createOrder_catch_def)

lemmas placement_eval = createOrder_def falsy_def withTransaction_def createOrder_txn_def process_item_def
  MongooseArray_includes_def ObjectId_cast_error_def json_ToNumber_def
  check_item_def Product_updateOne_dec_def Product_findById_def createOrder_catch_def
  ObjectId_isValid_def ObjectId_def hex_lower_def hex_digit_def num_le_def num_gt_def
  lt_num_def show_int_def show_number_def show_nat.simps
  Order_save_new_def Order_validate_def pre_save_def Cart_clear_def calculateOrderTotals_def
  subtotal_warning_def Let_def
  StringToNumber_def trim_def is_ws1_def is_ws2_def is_ws3_def unsigned_decimal_def is_digit_def
  dec_digit_def digits_value_def exponent_part_def power10_def
  line_def quiet_def shop_def runner_def runner_id_def

text \<open>
  C1. Whatever step of a placement fails (the request is answered with a status other
  than 201), the store after the request is the store before it: no stock is
  decremented, no order exists for the request, the cart is as it was.
\<close>

theorem createOrder_failure_rolls_back:
  assumes "createOrder env userId req d = (r, lg, d')" and "r_status r \<noteq> 201"
  shows "d' = d"
proof (cases "rq_products req")
  case None
  with assms show ?thesis by (simp add: createOrder_def)
next
  case (Some items)
  show ?thesis
  proof (cases items)
    case Nil
    with Some assms show ?thesis by (simp add: createOrder_def)
  next
    case (Cons item rest)
    obtain lg2 res where body: "createOrder_txn env userId (rq_total_amount req) (item # rest) d = (lg2, res)"
      by (cases "createOrder_txn env userId (rq_total_amount req) (item # rest) d") auto
    show ?thesis
    proof (cases res)
      case (Inl e)
      with body Some Cons assms show ?thesis
        by (simp add: createOrder_def withTransaction_def)
    next
      case (Inr ok)
      with body Some Cons assms show ?thesis
        by (cases ok) (auto simp: createOrder_def withTransaction_def)
    qed
  qed
qed

text \<open>
  The second line of the request asks for more than is left after the first: the first
  decrement is undone with the rest. And when the store rejects the write that clears
  the cart, the decrement and the saved order are undone.
\<close>

theorem createOrder_failure_rolls_back_witness:
  "r_status (fst (createOrder quiet ''u1'' \<lparr>rq_products = Some [line 3, line 3], rq_total_amount = None\<rparr> shop)) = 409
   \<and> snd (snd (createOrder quiet ''u1'' \<lparr>rq_products = Some [line 3, line 3], rq_total_amount = None\<rparr> shop)) = shop
   \<and> r_status (fst (createOrder (quiet\<lparr>cart_write_error := Some ''connection lost''\<rparr>) ''u1''
         \<lparr>rq_products = Some [line 3], rq_total_amount = None\<rparr> shop)) = 500
   \<and> snd (snd (createOrder (quiet\<lparr>cart_write_error := Some ''connection lost''\<rparr>) ''u1''
         \<lparr>rq_products = Some [line 3], rq_total_amount = None\<rparr> shop)) = shop"
proof -
  let ?res = "createOrder quiet ''u1'' \<lparr>rq_products = Some [line 3, line 3], rq_total_amount = None\<rparr> shop"
  let ?lost = "createOrder (quiet\<lparr>cart_write_error := Some ''connection lost''\<rparr>) ''u1''
         \<lparr>rq_products = Some [line 3], rq_total_amount = None\<rparr> shop"
  have st: "r_status (fst ?res) = 409"
    by (simp add: placement_eval)
  have sl: "r_status (fst ?lost) = 500"
    by (simp add: placement_eval)
  from st createOrder_failure_rolls_back [of quiet "''u1''" _ shop "fst ?res" "fst (snd ?res)" "snd (snd ?res)"]
  have 1: "snd (snd ?res) = shop" by simp
  from sl createOrder_failure_rolls_back
         [of "quiet\<lparr>cart_write_error := Some ''connection lost''\<rparr>" "''u1''" _ shop
             "fst ?lost" "fst (snd ?lost)" "snd (snd ?lost)"]
  have 2: "snd (snd ?lost) = shop" by simp
  from st sl 1 2 show ?thesis by simp
qed



lemma createOrder_by_txn:
  "fst (createOrder env userId req d) =
     (case rq_products req of
        None \<Rightarrow> \<lparr>r_status = 400, r_message = ''Products array is required and cannot be empty'',
                  r_order = None\<rparr>
      | Some [] \<Rightarrow> \<lparr>r_status = 400, r_message = ''Products array is required and cannot be empty'',
                     r_order = None\<rparr>
      | Some (item # rest) \<Rightarrow>
          (case snd (createOrder_txn env userId (rq_total_amount req) (item # rest) d) of
             Inl e \<Rightarrow> createOrder_catch e
           | Inr (savedOrder, d') \<Rightarrow> \<lparr>r_status = 201, r_message = [], r_order = Some savedOrder\<rparr>))"
  "snd (snd (createOrder env userId req d)) =
     (case rq_products req of
        None \<Rightarrow> d
      | Some [] \<Rightarrow> d
      | Some (item # rest) \<Rightarrow>
          (case snd (createOrder_txn env userId (rq_total_amount req) (item # rest) d) of
             Inl e \<Rightarrow> d
           | Inr (savedOrder, d') \<Rightarrow> d'))"
  by (auto simp: createOrder_def withTransaction_def split: option.splits list.splits sum.splits prod.splits)




text \<open>
  C8. A line without a quantity is malformed input, which the claim answers with a
  client error. The handler throws \<open>Each product must have product_id, quantity, and
  size\<close>, a message with none of the words its \<open>catch\<close> block looks for, and answers
  500.
\<close>

theorem createOrder_missing_quantity_is_500:
  "r_status (fst (createOrder quiet ''u1''
      \<lparr>rq_products = Some [\<lparr>it_product_id = JStr runner_id, it_quantity = JUndefined,
                             it_size = JStr ''10''\<rparr>],
        rq_total_amount = None\<rparr> shop)) = 500"
  by (simp add: placement_eval)

text \<open>
  C3. One unit of a product priced 0.10: the subtotal is 0.10 and the shipping 10, and
  the order is stored with the total 10.108, which still holds the 8 percent tax of
  \<open>calculateOrderTotals\<close>: the difference to subtotal plus shipping is within the
  0.01 that the \<open>pre('save')\<close> middleware lets pass.
\<close>

theorem createOrder_small_subtotal_keeps_tax:
  "fst (createOrder quiet ''u1'' \<lparr>rq_products = Some [line 1], rq_total_amount = None\<rparr> kiosk)
     = \<lparr>r_status = 201, r_message = [],
        r_order = Some \<lparr>o_user_id = ''u1'',
                        o_products = [\<lparr>ol_product_id = runner_id, ol_quantity = 1, ol_size = ''10'',
                                       ol_price = 1 / 10\<rparr>],
                        o_subtotal = 1 / 10, o_shipping = 10, o_total_amount = 2527 / 250,
                        o_order_status = Pending\<rparr>\<rparr>
   \<and> orders (snd (snd (createOrder quiet ''u1'' \<lparr>rq_products = Some [line 1], rq_total_amount = None\<rparr> kiosk)))
        (new_order_id quiet)
     = r_order (fst (createOrder quiet ''u1'' \<lparr>rq_products = Some [line 1], rq_total_amount = None\<rparr> kiosk))
   \<and> (2527 / 250 :: rat) \<noteq> 1 / 10 + 10"
  by (simp add: placement_eval kiosk_def)

section \<open>Properties of the cart\<close>

text \<open>
  C7. The cart holds a line of 8 units of a product with 20 in stock; adding 5 more of
  the same product and size is accepted and the line becomes 13 units, above the
  maximum of 10 that the claim gives a line. Only the quantity of the request is held
  against 10; the merged quantity is held against the stock alone.
\<close>

theorem addItemToCart_merged_line_above_ten:
  "fst (addItemToCart quiet ''u1''
          \<lparr>cr_productId = JStr runner_id, cr_quantity = JNum 5, cr_size = JStr ''10''\<rparr> warehouse) = 201
   \<and> carts (snd (addItemToCart quiet ''u1''
          \<lparr>cr_productId = JStr runner_id, cr_quantity = JNum 5, cr_size = JStr ''10''\<rparr> warehouse)) ''u1''
     = Some \<lparr>c_items = [\<lparr>ci_product = runner_id, ci_quantity = 13, ci_size = ''10'', ci_price = 20\<rparr>],
             c_total = 260\<rparr>"
  by (simp add: addItemToCart_def falsy_def Cart_save_def cart_total_def sanitizeInput_def trim_def is_ws1_def
      is_ws2_def is_ws3_def MongooseArray_includes_def ObjectId_cast_error_def
      ObjectId_isValid_def ObjectId_def hex_lower_def hex_digit_def num_le_def num_gt_def lt_num_def
      Let_def warehouse_def quiet_def shop_def runner_def runner_id_def)

section \<open>Properties of the order model and the status of an order\<close>

lemma pre_save_fields [simp]:
  "o_order_status (pre_save this) = o_order_status this"
  "o_subtotal (pre_save this) = o_subtotal this"
  "o_shipping (pre_save this) = o_shipping this"
  "o_products (pre_save this) = o_products this"
  "o_user_id (pre_save this) = o_user_id this"
  by (simp_all add: pre_save_def Let_def)

lemma pre_save_within:
  "\<bar>o_total_amount (pre_save this) - (o_subtotal this + o_shipping this)\<bar> \<le> 1 / 100"
  by (simp add: pre_save_def Let_def)

lemma pre_save_corrects:
  "\<bar>o_total_amount this - (o_subtotal this + o_shipping this)\<bar> > 1 / 100
   \<Longrightarrow> o_total_amount (pre_save this) = o_subtotal this + o_shipping this"
  by (simp add: pre_save_def Let_def)

lemma status_of_truthy: "status_of v = Some s \<Longrightarrow> \<not> falsy v"
  by (cases v) (auto simp: status_of_def falsy_def split: if_splits)

lemma Product_updateOne_inc_other [simp]:
  "orders (Product_updateOne_inc pid q d) = orders d"
  "carts (Product_updateOne_inc pid q d) = carts d"
  by (simp_all add: Product_updateOne_inc_def split: option.splits)

lemma restore_quantities_other [simp]:
  "orders (restore_quantities pop ls d) = orders d"
  "carts (restore_quantities pop ls d) = carts d"
  by (induction ls arbitrary: d) simp_all

lemma restore_quantities_products:
  "products (restore_quantities pop ls d) pid =
     map_option (\<lambda>p. p\<lparr>p_quantity := p_quantity p + (if pop pid = None then 0 else requested ls pid)\<rparr>)
       (products d pid)"
proof (induction ls arbitrary: d)
  case Nil
  show ?case by (simp add: requested_def option.map_ident)
next
  case (Cons item rest)
  show ?case
  proof (cases "ol_product_id item = pid")
    case True
    then have r: "requested (item # rest) pid = ol_quantity item + requested rest pid"
      by (simp add: requested_def)
    show ?thesis
      using True r
      by (cases "products d pid") (auto simp: Cons.IH Product_updateOne_inc_def)
  next
    case False
    then have r: "requested (item # rest) pid = requested rest pid"
      by (simp add: requested_def)
    show ?thesis
      using False r
      by (auto simp: Cons.IH Product_updateOne_inc_def split: option.splits)
  qed
qed

lemma restore_quantities_populated:
  "products (restore_quantities (products d) ls d) pid =
     map_option (\<lambda>p. p\<lparr>p_quantity := p_quantity p + requested ls pid\<rparr>) (products d pid)"
  by (cases "products d pid") (simp_all add: restore_quantities_products)

lemma Order_validate_status [simp]:
  "Order_validate (this\<lparr>o_order_status := s\<rparr>) = Order_validate this"
  by (simp add: Order_validate_def)

lemma pre_save_validate: "Order_validate this \<Longrightarrow> Order_validate (pre_save this)"
  by (simp add: Order_validate_def pre_save_def Let_def)

lemma updateOrderStatus_txn_found:
  assumes "orders d oid = Some order" and "order_write_error env = None" and "Order_validate order"
  shows "updateOrderStatus_txn env oid s d =
     ([], Inr (pre_save (order\<lparr>o_order_status := s\<rparr>),
        (if s = Cancelled \<and> (o_order_status order = Pending \<or> o_order_status order = Processing)
         then restore_quantities (products d) (o_products order) d else d)
        \<lparr>orders := (orders d)(oid \<mapsto> pre_save (order\<lparr>o_order_status := s\<rparr>))\<rparr>))"
  using assms by (simp add: updateOrderStatus_txn_def Order_save_def Let_def)

lemma updateOrderStatus_valid:
  assumes "ObjectId_isValid (JStr orderId)" and "status_of status = Some s"
    and "orders d (ObjectId orderId) = Some order" and "order_write_error env = None"
    and "Order_validate order"
  shows "updateOrderStatus env orderId status d =
     (\<lparr>r_status = 200, r_message = [],
       r_order = Some (pre_save (order\<lparr>o_order_status := s\<rparr>))\<rparr>,
      (if s = Cancelled \<and> (o_order_status order = Pending \<or> o_order_status order = Processing)
         then restore_quantities (products d) (o_products order) d else d)
        \<lparr>orders := (orders d)(ObjectId orderId \<mapsto> pre_save (order\<lparr>o_order_status := s\<rparr>))\<rparr>)"
  using assms status_of_truthy[OF assms(2)]
  by (simp add: updateOrderStatus_def withTransaction_def updateOrderStatus_txn_found)

lemma updateOrderStatus_invalid_order:
  assumes "ObjectId_isValid (JStr orderId)" and "status_of status = Some s"
    and "orders d (ObjectId orderId) = Some order" and "\<not> Order_validate order"
  shows "updateOrderStatus env orderId status d =
     (\<lparr>r_status = 500, r_message = ''Internal Server Error'', r_order = None\<rparr>, d)"
  using assms status_of_truthy[OF assms(2)]
  by (simp add: updateOrderStatus_def withTransaction_def updateOrderStatus_txn_def Order_save_def Let_def)

lemma updateOrderStatus_invalid_status:
  "status_of status = None \<Longrightarrow>
   r_status (fst (updateOrderStatus env orderId status d)) = 400 \<and> snd (updateOrderStatus env orderId status d) = d"
  by (simp add: updateOrderStatus_def)

lemma deleteOrder_allowed:
  assumes "ObjectId_isValid (JStr orderId)"
    and "orders d (ObjectId orderId) = Some order" and "order_write_error env = None"
    and "u_role user = ''admin'' \<or> o_user_id order = u_id user"
  shows "deleteOrder env user orderId d =
     (\<lparr>r_status = 200, r_message = ''Order deleted successfully'', r_order = Some order\<rparr>,
      (if o_order_status order = Pending \<or> o_order_status order = Processing
         then restore_quantities (products d) (o_products order) d else d)
        \<lparr>orders := (orders d)(ObjectId orderId := None)\<rparr>)"
  using assms
  by (auto simp: deleteOrder_def withTransaction_def deleteOrder_txn_def Order_deleteOne_def Let_def)

lemma updateOrderStatus_products_gate:
  assumes "orders d (ObjectId orderId) = Some order"
    and "o_order_status order \<noteq> Pending" and "o_order_status order \<noteq> Processing"
  shows "products (snd (updateOrderStatus env orderId status d)) = products d"
  using assms
  by (auto simp: updateOrderStatus_def withTransaction_def updateOrderStatus_txn_def Order_save_def Let_def
      split: option.splits)

lemma deleteOrder_products_gate:
  assumes "orders d (ObjectId orderId) = Some order"
    and "o_order_status order \<noteq> Pending" and "o_order_status order \<noteq> Processing"
  shows "products (snd (deleteOrder env user orderId d)) = products d"
  using assms
  by (auto simp: deleteOrder_def withTransaction_def deleteOrder_txn_def Order_deleteOne_def Let_def
      split: option.splits)

lemmas status_eval = updateOrderStatus_def deleteOrder_def withTransaction_def updateOrderStatus_txn_def
  Order_validate_def
  deleteOrder_txn_def Order_save_def Order_deleteOne_def pre_save_def Product_updateOne_inc_def
  status_of_def falsy_def ObjectId_isValid_def ObjectId_def hex_lower_def hex_digit_def Let_def
  ledger_def penny_ledger_def runner_order_def order_id_def quiet_def shop_def runner_def runner_id_def

lemma order_id_valid: "ObjectId_isValid (JStr order_id)" "ObjectId order_id = order_id"
  by (simp_all add: ObjectId_isValid_def ObjectId_def hex_lower_def hex_digit_def order_id_def)

text \<open>
  C4, as stated, fails: a shipped order is cancelled and a delivered order is set back
  to pending, both with the answer 200. The handler checks that the status is one of
  the five and nothing about the status the order has.
\<close>

theorem updateOrderStatus_shipped_to_cancelled_applied:
  "r_status (fst (updateOrderStatus quiet order_id (JStr ''Cancelled'') (ledger Shipped))) = 200
   \<and> map_option o_order_status
        (orders (snd (updateOrderStatus quiet order_id (JStr ''Cancelled'') (ledger Shipped))) order_id)
      = Some Cancelled
   \<and> r_status (fst (updateOrderStatus quiet order_id (JStr ''Pending'') (ledger Delivered))) = 200
   \<and> map_option o_order_status
        (orders (snd (updateOrderStatus quiet order_id (JStr ''Pending'') (ledger Delivered))) order_id)
      = Some Pending"
  by (simp add: status_eval)

text \<open>
  C4, amended. A request whose status is absent or not one of the five is answered 400
  and changes nothing. A request that names one of the five statuses for an order of
  the store is answered 200 and the order takes that status, whatever status it had;
  the stock is touched only when the new status is \<open>Cancelled\<close> and the old one
  \<open>Pending\<close> or \<open>Processing\<close>. This is for an order that passes the validators of the
  schema, as every order does that a handler stored; the save of an order that does
  not is refused, with the answer 500 and nothing changed.
\<close>

theorem updateOrderStatus_any_transition:
  "(status_of status = None \<longrightarrow>
      r_status (fst (updateOrderStatus env orderId status d)) = 400
      \<and> snd (updateOrderStatus env orderId status d) = d)
   \<and> (\<forall>s order. status_of status = Some s \<and> ObjectId_isValid (JStr orderId)
         \<and> orders d (ObjectId orderId) = Some order \<and> Order_validate order
         \<and> order_write_error env = None \<longrightarrow>
        r_status (fst (updateOrderStatus env orderId status d)) = 200
        \<and> map_option o_order_status (orders (snd (updateOrderStatus env orderId status d)) (ObjectId orderId))
            = Some s
        \<and> (if s = Cancelled \<and> (o_order_status order = Pending \<or> o_order_status order = Processing)
            then products (snd (updateOrderStatus env orderId status d))
                   = products (restore_quantities (products d) (o_products order) d)
            else products (snd (updateOrderStatus env orderId status d)) = products d))
   \<and> (\<forall>s order. status_of status = Some s \<and> ObjectId_isValid (JStr orderId)
         \<and> orders d (ObjectId orderId) = Some order \<and> \<not> Order_validate order \<longrightarrow>
        r_status (fst (updateOrderStatus env orderId status d)) = 500
        \<and> snd (updateOrderStatus env orderId status d) = d)"
proof (intro conjI allI impI)
  assume "status_of status = None"
  then show "r_status (fst (updateOrderStatus env orderId status d)) = 400"
    and "snd (updateOrderStatus env orderId status d) = d"
    using updateOrderStatus_invalid_status by simp_all
next
  fix s order
  assume h: "status_of status = Some s \<and> ObjectId_isValid (JStr orderId)
         \<and> orders d (ObjectId orderId) = Some order \<and> Order_validate order
         \<and> order_write_error env = None"
  then have e: "updateOrderStatus env orderId status d =
     (\<lparr>r_status = 200, r_message = [],
       r_order = Some (pre_save (order\<lparr>o_order_status := s\<rparr>))\<rparr>,
      (if s = Cancelled \<and> (o_order_status order = Pending \<or> o_order_status order = Processing)
         then restore_quantities (products d) (o_products order) d else d)
        \<lparr>orders := (orders d)(ObjectId orderId \<mapsto> pre_save (order\<lparr>o_order_status := s\<rparr>))\<rparr>)"
    using updateOrderStatus_valid by simp
  show "r_status (fst (updateOrderStatus env orderId status d)) = 200"
    by (simp add: e)
  show "map_option o_order_status (orders (snd (updateOrderStatus env orderId status d)) (ObjectId orderId))
            = Some s"
    by (simp add: e)
  show "if s = Cancelled \<and> (o_order_status order = Pending \<or> o_order_status order = Processing)
            then products (snd (updateOrderStatus env orderId status d))
                   = products (restore_quantities (products d) (o_products order) d)
            else products (snd (updateOrderStatus env orderId status d)) = products d"
    by (auto simp: e)
next
  fix s order
  assume h: "status_of status = Some s \<and> ObjectId_isValid (JStr orderId)
         \<and> orders d (ObjectId orderId) = Some order \<and> \<not> Order_validate order"
  then have e: "updateOrderStatus env orderId status d =
     (\<lparr>r_status = 500, r_message = ''Internal Server Error'', r_order = None\<rparr>, d)"
    using updateOrderStatus_invalid_order by simp
  show "r_status (fst (updateOrderStatus env orderId status d)) = 500"
    by (simp add: e)
  show "snd (updateOrderStatus env orderId status d) = d"
    by (simp add: e)
qed

text \<open>A delivered order goes back to processing; the status \<open>Returned\<close> is refused.\<close>

theorem updateOrderStatus_any_transition_witness:
  "r_status (fst (updateOrderStatus quiet order_id (JStr ''Returned'') (ledger Shipped))) = 400
   \<and> snd (updateOrderStatus quiet order_id (JStr ''Returned'') (ledger Shipped)) = ledger Shipped
   \<and> r_status (fst (updateOrderStatus quiet order_id (JStr ''Processing'') (ledger Delivered))) = 200
   \<and> map_option o_order_status
        (orders (snd (updateOrderStatus quiet order_id (JStr ''Processing'') (ledger Delivered))) order_id)
      = Some Processing
   \<and> products (snd (updateOrderStatus quiet order_id (JStr ''Processing'') (ledger Delivered)))
      = products (ledger Delivered)"
proof -
  have a: "status_of (JStr ''Returned'') = None"
    by (simp add: status_of_def)
  have b: "status_of (JStr ''Processing'') = Some Processing \<and> ObjectId_isValid (JStr order_id)
         \<and> orders (ledger Delivered) (ObjectId order_id) = Some (runner_order Delivered)
         \<and> Order_validate (runner_order Delivered)
         \<and> order_write_error quiet = None"
    by (simp add: status_of_def order_id_valid ledger_def quiet_def Order_validate_def runner_order_def)
  have c: "o_order_status (runner_order Delivered) = Delivered"
    by (simp add: runner_order_def)
  from updateOrderStatus_any_transition [of "JStr ''Returned''" quiet order_id "ledger Shipped"] a
  have 1: "r_status (fst (updateOrderStatus quiet order_id (JStr ''Returned'') (ledger Shipped))) = 400
   \<and> snd (updateOrderStatus quiet order_id (JStr ''Returned'') (ledger Shipped)) = ledger Shipped"
    by simp
  from updateOrderStatus_any_transition [of "JStr ''Processing''" quiet order_id "ledger Delivered"] b c
  have 2: "r_status (fst (updateOrderStatus quiet order_id (JStr ''Processing'') (ledger Delivered))) = 200
   \<and> map_option o_order_status
        (orders (snd (updateOrderStatus quiet order_id (JStr ''Processing'') (ledger Delivered))) (ObjectId order_id))
      = Some Processing
   \<and> products (snd (updateOrderStatus quiet order_id (JStr ''Processing'') (ledger Delivered)))
      = products (ledger Delivered)"
    by (metis order_status.distinct(13))
  from 1 2 show ?thesis by (simp add: order_id_valid)
qed

lemma Cart_clear_orders: "Cart_clear env u d = Inr d' \<Longrightarrow> orders d' = orders d \<and> products d' = products d"
  by (auto simp: Cart_clear_def split: option.splits)

lemma Order_save_new_Inr:
  "Order_save_new env this d = Inr (saved, d') \<Longrightarrow>
   saved = pre_save this \<and> d' = d\<lparr>orders := (orders d)(new_order_id env \<mapsto> pre_save this)\<rparr>
   \<and> orders d (new_order_id env) = None"
  by (auto simp: Order_save_new_def Let_def split: if_splits option.splits)

lemma createOrder_txn_Inr:
  assumes "createOrder_txn env userId ta items d = (lg, Inr (saved, d'))"
  shows "\<exists>d1 ls sub. process_items env items (d, [], 0) = Inr (d1, ls, sub)
     \<and> saved = pre_save \<lparr>o_user_id = userId, o_products = ls, o_subtotal = sub,
                         o_shipping = (if sub > 100 then 0 else 10),
                         o_total_amount = sub + (if sub > 100 then 0 else 10) + sub * (8 / 100),
                         o_order_status = Pending\<rparr>
     \<and> Order_validate saved \<and> 0 \<le> sub
     \<and> orders d' = (orders d1)(new_order_id env \<mapsto> saved)
     \<and> products d' = products d1"
proof -
  from assms obtain d1 ls sub where p: "process_items env items (d, [], 0) = Inr (d1, ls, sub)"
    by (cases "process_items env items (d, [], 0)") (auto simp: createOrder_txn_def)
  from assms p obtain lg0 where w: "subtotal_warning ta sub = Inr lg0"
    by (cases "subtotal_warning ta sub") (auto simp: createOrder_txn_def Let_def)
  let ?new = "\<lparr>o_user_id = userId, o_products = ls, o_subtotal = sub,
                         o_shipping = (if sub > 100 then 0 else 10),
                         o_total_amount = sub + (if sub > 100 then 0 else 10) + sub * (8 / 100),
                         o_order_status = Pending\<rparr>"
  from assms p w obtain sv d2 where s: "Order_save_new env ?new d1 = Inr (sv, d2)"
    by (cases "Order_save_new env ?new d1")
       (auto simp: createOrder_txn_def calculateOrderTotals_def Let_def split: if_splits)
  from assms p w s have c: "Cart_clear env userId d2 = Inr d'" and e: "saved = sv"
    by (cases "Cart_clear env userId d2";
        auto simp: createOrder_txn_def calculateOrderTotals_def Let_def split: if_splits)+
  from s have v: "Order_validate ?new"
    by (auto simp: Order_save_new_def split: if_splits)
  from v have n: "0 \<le> sub"
    by (simp add: Order_validate_def)
  from Order_save_new_Inr[OF s] Cart_clear_orders[OF c] e p pre_save_validate[OF v] n show ?thesis
    by auto
qed

lemma createOrder_201:
  assumes "createOrder env userId req d = (r, lg, d')" and "r_status r = 201"
  shows "\<exists>items saved. rq_products req = Some items
     \<and> createOrder_txn env userId (rq_total_amount req) items d = (lg, Inr (saved, d'))
     \<and> r_order r = Some saved"
proof (cases "rq_products req")
  case None
  with assms show ?thesis by (auto simp: createOrder_def)
next
  case (Some items)
  show ?thesis
  proof (cases items)
    case Nil
    with Some assms show ?thesis by (auto simp: createOrder_def)
  next
    case (Cons item rest)
    obtain lg2 res where body: "createOrder_txn env userId (rq_total_amount req) items d = (lg2, res)"
      by (cases "createOrder_txn env userId (rq_total_amount req) items d") auto
    show ?thesis
    proof (cases res)
      case (Inl e)
      with body Some Cons assms createOrder_catch_status[of e] show ?thesis
        by (auto simp: createOrder_def withTransaction_def)
    next
      case (Inr ok)
      with body Some Cons assms show ?thesis
        by (cases ok) (auto simp: createOrder_def withTransaction_def)
    qed
  qed
qed

lemma updateOrderStatus_200:
  assumes "updateOrderStatus env orderId status d = (r, d')" and "r_status r = 200"
  shows "\<exists>this. orders d' (ObjectId orderId) = Some (pre_save this)"
  using assms
  by (auto simp: updateOrderStatus_def withTransaction_def updateOrderStatus_txn_def Order_save_def Let_def
      split: if_splits option.splits)

lemma updateOrderStatus_write_error:
  "order_write_error env = Some e \<Longrightarrow> snd (updateOrderStatus env orderId status d) = d"
  by (auto simp: updateOrderStatus_def withTransaction_def updateOrderStatus_txn_def Order_save_def Let_def
      split: if_splits option.splits)

lemma deleteOrder_write_error:
  "order_write_error env = Some e \<Longrightarrow> snd (deleteOrder env user orderId d) = d"
  by (auto simp: deleteOrder_def withTransaction_def deleteOrder_txn_def Order_deleteOne_def Let_def
      split: if_splits option.splits)

text \<open>
  C6, amended. Every save of an order goes through the \<open>pre('save')\<close> middleware, at
  creation and at a status update alike, and the order it stores has a total within
  0.01 of subtotal plus shipping. The middleware sets the total to exactly subtotal
  plus shipping when it was further off, and leaves the order as it is otherwise.
\<close>

theorem saved_order_total_within_cent:
  "(\<forall>r lg d'. createOrder env userId req d = (r, lg, d') \<and> r_status r = 201 \<longrightarrow>
      (\<exists>saved. orders d' (new_order_id env) = Some saved \<and> r_order r = Some saved
         \<and> \<bar>o_total_amount saved - (o_subtotal saved + o_shipping saved)\<bar> \<le> 1 / 100))
   \<and> (\<forall>r d'. updateOrderStatus env orderId status d = (r, d') \<and> r_status r = 200 \<longrightarrow>
      (\<exists>saved. orders d' (ObjectId orderId) = Some saved
         \<and> \<bar>o_total_amount saved - (o_subtotal saved + o_shipping saved)\<bar> \<le> 1 / 100))
   \<and> (\<bar>o_total_amount this - (o_subtotal this + o_shipping this)\<bar> > 1 / 100 \<longrightarrow>
        o_total_amount (pre_save this) = o_subtotal this + o_shipping this)
   \<and> (\<bar>o_total_amount this - (o_subtotal this + o_shipping this)\<bar> \<le> 1 / 100 \<longrightarrow>
        pre_save this = this)"
proof (intro conjI allI impI)
  fix r lg d'
  assume "createOrder env userId req d = (r, lg, d') \<and> r_status r = 201"
  then obtain items saved where
    t: "createOrder_txn env userId (rq_total_amount req) items d = (lg, Inr (saved, d'))"
    and o: "r_order r = Some saved"
    using createOrder_201 by blast
  from createOrder_txn_Inr[OF t] obtain this0 where
    "saved = pre_save this0" "orders d' (new_order_id env) = Some saved"
    by auto
  with o pre_save_within[of this0]
  show "\<exists>saved. orders d' (new_order_id env) = Some saved \<and> r_order r = Some saved
         \<and> \<bar>o_total_amount saved - (o_subtotal saved + o_shipping saved)\<bar> \<le> 1 / 100"
    by simp
next
  fix r d'
  assume "updateOrderStatus env orderId status d = (r, d') \<and> r_status r = 200"
  then obtain this0 where "orders d' (ObjectId orderId) = Some (pre_save this0)"
    using updateOrderStatus_200 by blast
  with pre_save_within[of this0]
  show "\<exists>saved. orders d' (ObjectId orderId) = Some saved
         \<and> \<bar>o_total_amount saved - (o_subtotal saved + o_shipping saved)\<bar> \<le> 1 / 100"
    by simp
next
  assume "\<bar>o_total_amount this - (o_subtotal this + o_shipping this)\<bar> > 1 / 100"
  then show "o_total_amount (pre_save this) = o_subtotal this + o_shipping this"
    by (rule pre_save_corrects)
next
  assume "\<bar>o_total_amount this - (o_subtotal this + o_shipping this)\<bar> \<le> 1 / 100"
  then show "pre_save this = this"
    by (simp add: pre_save_def Let_def)
qed

text \<open>
  C6, as stated, fails: an order with subtotal 0.10, shipping 10 and total 10.108 is
  saved by a status update with the same total, which is not subtotal plus shipping.
\<close>

theorem updateOrderStatus_keeps_total_off_by_tax:
  "r_status (fst (updateOrderStatus quiet order_id (JStr ''Processing'') penny_ledger)) = 200
   \<and> map_option o_total_amount
        (orders (snd (updateOrderStatus quiet order_id (JStr ''Processing'') penny_ledger)) order_id)
      = Some (2527 / 250)
   \<and> map_option (\<lambda>saved. o_subtotal saved + o_shipping saved)
        (orders (snd (updateOrderStatus quiet order_id (JStr ''Processing'') penny_ledger)) order_id)
      = Some (101 / 10)"
  by (simp add: status_eval)

text \<open>
  C9, amended. A status update or a deletion of an order whose status is
  \<open>Cancelled\<close> at that time changes no product: both loops that restore quantities
  run only for an order that is \<open>Pending\<close> or \<open>Processing\<close>.
\<close>

theorem cancelled_order_restores_nothing:
  assumes "orders d (ObjectId orderId) = Some order" and "o_order_status order = Cancelled"
  shows "products (snd (updateOrderStatus env orderId status d)) = products d
       \<and> products (snd (deleteOrder env user orderId d)) = products d"
  using assms updateOrderStatus_products_gate[of d orderId order env status]
    deleteOrder_products_gate[of d orderId order env user]
  by simp

theorem cancelled_order_restores_nothing_witness:
  "orders (ledger Cancelled) (ObjectId order_id) = Some (runner_order Cancelled)
   \<and> o_order_status (runner_order Cancelled) = Cancelled
   \<and> products (snd (updateOrderStatus quiet order_id (JStr ''Cancelled'') (ledger Cancelled)))
       = products (ledger Cancelled)
   \<and> products (snd (deleteOrder quiet \<lparr>u_id = ''u1'', u_role = ''user''\<rparr> order_id (ledger Cancelled)))
       = products (ledger Cancelled)"
proof -
  have a: "orders (ledger Cancelled) (ObjectId order_id) = Some (runner_order Cancelled)"
    by (simp add: order_id_valid ledger_def)
  have b: "o_order_status (runner_order Cancelled) = Cancelled"
    by (simp add: runner_order_def)
  from cancelled_order_restores_nothing[OF a b] a b show ?thesis
    by simp
qed

text \<open>
  C9, as stated, fails: the quantities of an order can be restored more than once. The
  order of three units is cancelled (stock 2 becomes 5), set back to \<open>Pending\<close>,
  which the handler accepts, and cancelled again: the later request on an order that
  was already cancelled brings the stock to 8.
\<close>

theorem order_restored_twice:
  "map_option o_order_status
     (orders (snd (updateOrderStatus quiet order_id (JStr ''Cancelled'') (ledger Pending))) order_id)
     = Some Cancelled
   \<and> map_option p_quantity
     (products (snd (updateOrderStatus quiet order_id (JStr ''Cancelled'') (ledger Pending))) runner_id)
     = Some 5
   \<and> map_option p_quantity
     (products (snd (updateOrderStatus quiet order_id (JStr ''Pending'')
        (snd (updateOrderStatus quiet order_id (JStr ''Cancelled'') (ledger Pending))))) runner_id)
     = Some 5
   \<and> map_option p_quantity
     (products (snd (updateOrderStatus quiet order_id (JStr ''Cancelled'')
        (snd (updateOrderStatus quiet order_id (JStr ''Pending'')
          (snd (updateOrderStatus quiet order_id (JStr ''Cancelled'') (ledger Pending))))))) runner_id)
     = Some 8"
  by (simp add: status_eval)

text \<open>
  A new order of 60 plus 10 shipping, a status update of the order that is 0.008 off,
  and the middleware on a total of 64.80 against 70.
\<close>

theorem saved_order_total_within_cent_witness:
  "(\<exists>saved. orders (snd (snd (createOrder quiet ''u1'' \<lparr>rq_products = Some [line 3], rq_total_amount = None\<rparr> shop)))
                (new_order_id quiet) = Some saved
       \<and> r_order (fst (createOrder quiet ''u1'' \<lparr>rq_products = Some [line 3], rq_total_amount = None\<rparr> shop))
           = Some saved
       \<and> \<bar>o_total_amount saved - (o_subtotal saved + o_shipping saved)\<bar> \<le> 1 / 100)
   \<and> (\<exists>saved. orders (snd (updateOrderStatus quiet order_id (JStr ''Shipped'') penny_ledger))
                (ObjectId order_id) = Some saved
       \<and> \<bar>o_total_amount saved - (o_subtotal saved + o_shipping saved)\<bar> \<le> 1 / 100)
   \<and> o_total_amount (pre_save ((runner_order Pending)\<lparr>o_total_amount := 648 / 10\<rparr>)) = 70
   \<and> pre_save (runner_order Pending) = runner_order Pending"
proof -
  let ?req = "\<lparr>rq_products = Some [line 3], rq_total_amount = None\<rparr>"
  let ?C = "createOrder quiet ''u1'' ?req shop"
  let ?U = "updateOrderStatus quiet order_id (JStr ''Shipped'') penny_ledger"
  have c: "?C = (fst ?C, fst (snd ?C), snd (snd ?C)) \<and> r_status (fst ?C) = 201"
    by (simp add: placement_eval)
  have u: "?U = (fst ?U, snd ?U) \<and> r_status (fst ?U) = 200"
    by (simp add: status_eval)
  have p: "\<bar>o_total_amount ((runner_order Pending)\<lparr>o_total_amount := 648 / 10\<rparr>)
            - (o_subtotal ((runner_order Pending)\<lparr>o_total_amount := 648 / 10\<rparr>)
               + o_shipping ((runner_order Pending)\<lparr>o_total_amount := 648 / 10\<rparr>))\<bar> > 1 / 100"
    by (simp add: runner_order_def)
  have q: "\<bar>o_total_amount (runner_order Pending)
            - (o_subtotal (runner_order Pending) + o_shipping (runner_order Pending))\<bar> \<le> 1 / 100"
    by (simp add: runner_order_def)
  from saved_order_total_within_cent
         [of quiet "''u1''" ?req shop order_id "JStr ''Shipped''" "(runner_order Pending)\<lparr>o_total_amount := 648 / 10\<rparr>"]
       c p
  have 1: "(\<exists>saved. orders (snd (snd ?C)) (new_order_id quiet) = Some saved
       \<and> r_order (fst ?C) = Some saved
       \<and> \<bar>o_total_amount saved - (o_subtotal saved + o_shipping saved)\<bar> \<le> 1 / 100)"
    and 3: "o_total_amount (pre_save ((runner_order Pending)\<lparr>o_total_amount := 648 / 10\<rparr>))
              = o_subtotal ((runner_order Pending)\<lparr>o_total_amount := 648 / 10\<rparr>)
                + o_shipping ((runner_order Pending)\<lparr>o_total_amount := 648 / 10\<rparr>)"
    by blast+
  from saved_order_total_within_cent
         [of quiet "''u1''" ?req penny_ledger order_id "JStr ''Shipped''" "runner_order Pending"]
       u q
  have 2: "(\<exists>saved. orders (snd ?U) (ObjectId order_id) = Some saved
       \<and> \<bar>o_total_amount saved - (o_subtotal saved + o_shipping saved)\<bar> \<le> 1 / 100)"
    and 4: "pre_save (runner_order Pending) = runner_order Pending"
    by blast+
  from 3 have 5: "o_total_amount (pre_save ((runner_order Pending)\<lparr>o_total_amount := 648 / 10\<rparr>)) = 70"
    by (simp add: runner_order_def)
  from 1 2 4 5 show ?thesis by blast
qed

text \<open>
  C5. For an order that is \<open>Pending\<close> or \<open>Processing\<close> (and passes the validators of
  the schema at its save, as every order does that a handler stored), the cancellation
  adds to the
  stock of every product the quantities of the lines of the order that name it, and
  sets the status; the deletion by the owner or an admin adds the same quantities and
  removes the order. The deletion of an order in any other status leaves the products
  as they are. Restoring and saving are one transaction: when the store rejects the
  write to the order, nothing is changed.
\<close>

theorem cancel_and_delete_restore_stock:
  assumes "ObjectId_isValid (JStr orderId)" and "orders d (ObjectId orderId) = Some order"
  shows "(order_write_error env = None \<and> Order_validate order
            \<and> (o_order_status order = Pending \<or> o_order_status order = Processing) \<longrightarrow>
            r_status (fst (updateOrderStatus env orderId (JStr ''Cancelled'') d)) = 200
          \<and> map_option o_order_status
               (orders (snd (updateOrderStatus env orderId (JStr ''Cancelled'') d)) (ObjectId orderId))
              = Some Cancelled
          \<and> (\<forall>pid. products (snd (updateOrderStatus env orderId (JStr ''Cancelled'') d)) pid
                = map_option (\<lambda>p. p\<lparr>p_quantity := p_quantity p + requested (o_products order) pid\<rparr>)
                    (products d pid)))
       \<and> (order_write_error env = None
            \<and> (u_role user = ''admin'' \<or> o_user_id order = u_id user) \<longrightarrow>
            r_status (fst (deleteOrder env user orderId d)) = 200
          \<and> orders (snd (deleteOrder env user orderId d)) (ObjectId orderId) = None
          \<and> (if o_order_status order = Pending \<or> o_order_status order = Processing
             then \<forall>pid. products (snd (deleteOrder env user orderId d)) pid
                = map_option (\<lambda>p. p\<lparr>p_quantity := p_quantity p + requested (o_products order) pid\<rparr>)
                    (products d pid)
             else products (snd (deleteOrder env user orderId d)) = products d))
       \<and> (order_write_error env \<noteq> None \<longrightarrow>
            snd (updateOrderStatus env orderId (JStr ''Cancelled'') d) = d
          \<and> snd (deleteOrder env user orderId d) = d)"
proof (intro conjI impI)
  assume h: "order_write_error env = None \<and> Order_validate order
            \<and> (o_order_status order = Pending \<or> o_order_status order = Processing)"
  have s: "status_of (JStr ''Cancelled'') = Some Cancelled"
    by (simp add: status_of_def)
  from h have e: "updateOrderStatus env orderId (JStr ''Cancelled'') d =
     (\<lparr>r_status = 200, r_message = [],
       r_order = Some (pre_save (order\<lparr>o_order_status := Cancelled\<rparr>))\<rparr>,
      (restore_quantities (products d) (o_products order) d)
        \<lparr>orders := (orders d)(ObjectId orderId \<mapsto> pre_save (order\<lparr>o_order_status := Cancelled\<rparr>))\<rparr>)"
    using updateOrderStatus_valid[OF assms(1) s assms(2), of env] by auto
  show "r_status (fst (updateOrderStatus env orderId (JStr ''Cancelled'') d)) = 200"
    by (simp add: e)
  show "map_option o_order_status
               (orders (snd (updateOrderStatus env orderId (JStr ''Cancelled'') d)) (ObjectId orderId))
              = Some Cancelled"
    by (simp add: e)
  show "\<forall>pid. products (snd (updateOrderStatus env orderId (JStr ''Cancelled'') d)) pid
                = map_option (\<lambda>p. p\<lparr>p_quantity := p_quantity p + requested (o_products order) pid\<rparr>)
                    (products d pid)"
    by (simp add: e restore_quantities_populated)
next
  assume h: "order_write_error env = None
            \<and> (u_role user = ''admin'' \<or> o_user_id order = u_id user)"
  then have e: "deleteOrder env user orderId d =
     (\<lparr>r_status = 200, r_message = ''Order deleted successfully'', r_order = Some order\<rparr>,
      (if o_order_status order = Pending \<or> o_order_status order = Processing
         then restore_quantities (products d) (o_products order) d else d)
        \<lparr>orders := (orders d)(ObjectId orderId := None)\<rparr>)"
    using deleteOrder_allowed[OF assms, of env user] by simp
  show "r_status (fst (deleteOrder env user orderId d)) = 200"
    by (simp add: e)
  show "orders (snd (deleteOrder env user orderId d)) (ObjectId orderId) = None"
    by (simp add: e)
  show "if o_order_status order = Pending \<or> o_order_status order = Processing
             then \<forall>pid. products (snd (deleteOrder env user orderId d)) pid
                = map_option (\<lambda>p. p\<lparr>p_quantity := p_quantity p + requested (o_products order) pid\<rparr>)
                    (products d pid)
             else products (snd (deleteOrder env user orderId d)) = products d"
    by (auto simp: e restore_quantities_populated)
next
  assume "order_write_error env \<noteq> None"
  then obtain msg where "order_write_error env = Some msg" by auto
  then show "snd (updateOrderStatus env orderId (JStr ''Cancelled'') d) = d"
    and "snd (deleteOrder env user orderId d) = d"
    using updateOrderStatus_write_error deleteOrder_write_error by simp_all
qed

text \<open>
  The order of three units, with two in stock: cancelled, deleted by its owner, deleted
  once shipped, and cancelled while the store rejects the write.
\<close>

theorem cancel_and_delete_restore_stock_witness:
  "r_status (fst (updateOrderStatus quiet order_id (JStr ''Cancelled'') (ledger Pending))) = 200
   \<and> map_option o_order_status
        (orders (snd (updateOrderStatus quiet order_id (JStr ''Cancelled'') (ledger Pending))) order_id)
      = Some Cancelled
   \<and> map_option p_quantity
        (products (snd (updateOrderStatus quiet order_id (JStr ''Cancelled'') (ledger Pending))) runner_id)
      = Some 5
   \<and> r_status (fst (deleteOrder quiet \<lparr>u_id = ''u1'', u_role = ''user''\<rparr> order_id (ledger Processing))) = 200
   \<and> orders (snd (deleteOrder quiet \<lparr>u_id = ''u1'', u_role = ''user''\<rparr> order_id (ledger Processing))) order_id
      = None
   \<and> map_option p_quantity
        (products (snd (deleteOrder quiet \<lparr>u_id = ''u1'', u_role = ''user''\<rparr> order_id (ledger Processing)))
           runner_id)
      = Some 5
   \<and> products (snd (deleteOrder quiet \<lparr>u_id = ''a1'', u_role = ''admin''\<rparr> order_id (ledger Shipped)))
      = products (ledger Shipped)
   \<and> snd (updateOrderStatus (quiet\<lparr>order_write_error := Some ''connection lost''\<rparr>) order_id
             (JStr ''Cancelled'') (ledger Pending))
      = ledger Pending"
proof -
  let ?owner = "\<lparr>u_id = ''u1'', u_role = ''user''\<rparr>"
  let ?admin = "\<lparr>u_id = ''a1'', u_role = ''admin''\<rparr>"
  have v: "ObjectId_isValid (JStr order_id)"
    by (rule order_id_valid)
  have o: "orders (ledger st) (ObjectId order_id) = Some (runner_order st)" for st
    by (simp add: order_id_valid ledger_def)
  have st: "o_order_status (runner_order st) = st" "o_user_id (runner_order st) = ''u1''"
    "Order_validate (runner_order st)" for st
    by (simp_all add: runner_order_def Order_validate_def)
  have q: "map_option (\<lambda>p. p\<lparr>p_quantity := p_quantity p + requested (o_products (runner_order st)) runner_id\<rparr>)
             (products (ledger st) runner_id) = Some (runner\<lparr>p_quantity := 5\<rparr>)" for st
    by (simp add: ledger_def runner_order_def requested_def runner_def)
  have e: "order_write_error quiet = None"
    "order_write_error (quiet\<lparr>order_write_error := Some ''connection lost''\<rparr>) \<noteq> None"
    by (simp_all add: quiet_def)
  from cancel_and_delete_restore_stock[OF v o, of quiet Pending ?owner] st e q[of Pending]
  have 1: "r_status (fst (updateOrderStatus quiet order_id (JStr ''Cancelled'') (ledger Pending))) = 200
   \<and> map_option o_order_status
        (orders (snd (updateOrderStatus quiet order_id (JStr ''Cancelled'') (ledger Pending))) (ObjectId order_id))
      = Some Cancelled
   \<and> products (snd (updateOrderStatus quiet order_id (JStr ''Cancelled'') (ledger Pending))) runner_id
      = Some (runner\<lparr>p_quantity := 5\<rparr>)"
    by simp
  from cancel_and_delete_restore_stock[OF v o, of quiet Processing ?owner] st e q[of Processing]
  have 2: "r_status (fst (deleteOrder quiet ?owner order_id (ledger Processing))) = 200
   \<and> orders (snd (deleteOrder quiet ?owner order_id (ledger Processing))) (ObjectId order_id) = None
   \<and> products (snd (deleteOrder quiet ?owner order_id (ledger Processing))) runner_id
      = Some (runner\<lparr>p_quantity := 5\<rparr>)"
    by simp
  from cancel_and_delete_restore_stock[OF v o, of quiet Shipped ?admin] st e
  have 3: "products (snd (deleteOrder quiet ?admin order_id (ledger Shipped))) = products (ledger Shipped)"
    by simp
  from cancel_and_delete_restore_stock[OF v o, of "quiet\<lparr>order_write_error := Some ''connection lost''\<rparr>" Pending ?owner] e
  have 4: "snd (updateOrderStatus (quiet\<lparr>order_write_error := Some ''connection lost''\<rparr>) order_id
             (JStr ''Cancelled'') (ledger Pending)) = ledger Pending"
    by simp
  from 1 2 3 4 show ?thesis
    by (simp add: order_id_valid)
qed

section \<open>Properties of the conditional decrement\<close>

lemma process_item_Inr:
  assumes "process_item env item (d, ls, sub) = Inr (d', ls', sub')"
  shows "\<exists>l p. ls' = ls @ [l] \<and> sub' = sub + ol_price l * of_int (ol_quantity l)
           \<and> 1 \<le> ol_quantity l \<and> ol_quantity l \<le> 10
           \<and> ol_product_id l = item_key item
           \<and> parseInt (it_quantity item) = Some (ol_quantity l)
           \<and> orders d' = orders d \<and> carts d' = carts d
           \<and> products d (ol_product_id l) = Some p \<and> ol_quantity l \<le> p_quantity p
           \<and> products d' = (products d)(ol_product_id l \<mapsto> p\<lparr>p_quantity := p_quantity p - ol_quantity l\<rparr>)"
  using assms
  by (auto simp: process_item_def Product_updateOne_dec_def check_item_def item_key_def Let_def
      num_le_def num_gt_def
      split: sum.splits prod.splits option.splits if_splits)

lemma process_items_Inr:
  "process_items env items (d, ls, sub) = Inr (d', ls', sub') \<Longrightarrow>
   \<exists>new. ls' = ls @ new \<and> sub' = sub + lines_subtotal new
     \<and> list_all (\<lambda>l. 1 \<le> ol_quantity l \<and> ol_quantity l \<le> 10) new
     \<and> map ol_product_id new = map item_key items
     \<and> map (\<lambda>l. Some (ol_quantity l)) new = map (\<lambda>item. parseInt (it_quantity item)) items
     \<and> orders d' = orders d \<and> carts d' = carts d
     \<and> (\<forall>pid. products d' pid =
           map_option (\<lambda>p. p\<lparr>p_quantity := p_quantity p - asked items pid\<rparr>) (products d pid))
     \<and> (\<forall>pid p p'. products d pid = Some p \<and> products d' pid = Some p' \<and> 0 \<le> p_quantity p
           \<longrightarrow> 0 \<le> p_quantity p')"
proof (induction items arbitrary: d ls sub)
  case Nil
  then show ?case by (auto simp: asked_def lines_subtotal_def option.map_ident)
next
  case (Cons item rest)
  from Cons.prems obtain d1 ls1 sub1 where
    step: "process_item env item (d, ls, sub) = Inr (d1, ls1, sub1)"
    and rest: "process_items env rest (d1, ls1, sub1) = Inr (d', ls', sub')"
    by (auto split: sum.splits)
  from process_item_Inr[OF step] obtain l p where
    l: "ls1 = ls @ [l]" "sub1 = sub + ol_price l * of_int (ol_quantity l)"
       "1 \<le> ol_quantity l" "ol_quantity l \<le> 10" "orders d1 = orders d" "carts d1 = carts d"
       "products d (ol_product_id l) = Some p" "ol_quantity l \<le> p_quantity p"
       "products d1 = (products d)(ol_product_id l \<mapsto> p\<lparr>p_quantity := p_quantity p - ol_quantity l\<rparr>)"
       "ol_product_id l = item_key item" "parseInt (it_quantity item) = Some (ol_quantity l)"
    by blast
  from Cons.IH[OF rest] obtain new where
    n: "ls' = ls1 @ new" "sub' = sub1 + lines_subtotal new"
       "list_all (\<lambda>l. 1 \<le> ol_quantity l \<and> ol_quantity l \<le> 10) new"
       "map ol_product_id new = map item_key rest"
       "orders d' = orders d1" "carts d' = carts d1"
       "\<forall>pid. products d' pid =
           map_option (\<lambda>p. p\<lparr>p_quantity := p_quantity p - asked rest pid\<rparr>) (products d1 pid)"
       "\<forall>pid p p'. products d1 pid = Some p \<and> products d' pid = Some p' \<and> 0 \<le> p_quantity p
           \<longrightarrow> 0 \<le> p_quantity p'"
       "map (\<lambda>l. Some (ol_quantity l)) new = map (\<lambda>item. parseInt (it_quantity item)) rest"
    by blast
  have a: "ls' = ls @ (l # new)" using l n by simp
  have b: "sub' = sub + lines_subtotal (l # new)" using l n by (simp add: lines_subtotal_def)
  have c: "list_all (\<lambda>l. 1 \<le> ol_quantity l \<and> ol_quantity l \<le> 10) (l # new)" using l n by simp
  have e: "\<forall>pid. products d' pid =
           map_option (\<lambda>p. p\<lparr>p_quantity := p_quantity p - asked (item # rest) pid\<rparr>) (products d pid)"
  proof
    fix pid
    show "products d' pid =
           map_option (\<lambda>p. p\<lparr>p_quantity := p_quantity p - asked (item # rest) pid\<rparr>) (products d pid)"
    proof (cases "pid = ol_product_id l")
      case True
      then have "asked (item # rest) pid = ol_quantity l + asked rest pid"
        using l(10,11) by (simp add: asked_def)
      then show ?thesis using True l(7,9) n(7) by simp
    next
      case False
      then have "asked (item # rest) pid = asked rest pid"
        using l(10) by (auto simp: asked_def)
      then show ?thesis using False l(9) n(7) by simp
    qed
  qed
  have f: "\<forall>pid p p'. products d pid = Some p \<and> products d' pid = Some p' \<and> 0 \<le> p_quantity p
           \<longrightarrow> 0 \<le> p_quantity p'"
  proof (intro allI impI)
    fix pid q q' assume h: "products d pid = Some q \<and> products d' pid = Some q' \<and> 0 \<le> p_quantity q"
    show "0 \<le> p_quantity q'"
    proof (cases "pid = ol_product_id l")
      case True
      then have "products d1 pid = Some (p\<lparr>p_quantity := p_quantity p - ol_quantity l\<rparr>)" using l by simp
      moreover have "0 \<le> p_quantity (p\<lparr>p_quantity := p_quantity p - ol_quantity l\<rparr>)" using l by simp
      ultimately show ?thesis using n(8) h by blast
    next
      case False
      then have "products d1 pid = Some q" using l h by simp
      then show ?thesis using n(8) h by blast
    qed
  qed
  have g: "map ol_product_id (l # new) = map item_key (item # rest)"
    "map (\<lambda>l. Some (ol_quantity l)) (l # new) = map (\<lambda>item. parseInt (it_quantity item)) (item # rest)"
    using n(4,9) l(10,11) by simp_all
  have h: "orders d' = orders d" "carts d' = carts d" using n(5,6) l(5,6) by simp_all
  show ?case using a b c g h e f by blast
qed

lemma process_items_append:
  "process_items env (pre @ post) st =
     (case process_items env pre st of Inl e \<Rightarrow> Inl e | Inr st' \<Rightarrow> process_items env post st')"
  by (induction pre arbitrary: st) (auto split: sum.splits)

lemma process_item_zero_rows:
  assumes "check_item env item d1 = Inr (pid, Some q, product)"
    and "Product_updateOne_dec pid (Some q) d1 = Inr (0, d2)"
  shows "process_item env item (d1, ls, sub) = Inl (sold_out_message (p_name product))"
  using assms by (simp add: process_item_def)

lemma createOrder_loop_error:
  assumes "rq_products req = Some items" and "process_items env items (d, [], 0) = Inl e"
  shows "createOrder env userId req d = (createOrder_catch e, [], d)"
proof (cases items)
  case Nil
  with assms show ?thesis by simp
next
  case (Cons item rest)
  with assms show ?thesis
    by (simp add: createOrder_def withTransaction_def createOrder_txn_def)
qed

lemma createOrder_catch_sold_out:
  "r_status (createOrder_catch (sold_out_message n)) =
     (if str_includes (sold_out_message n) ''Invalid'' \<or> str_includes (sold_out_message n) ''required''
      then 400
      else if str_includes (sold_out_message n) ''not found''
              \<or> str_includes (sold_out_message n) ''not available''
      then 404 else 409)"
  "r_order (createOrder_catch e) = None"
  by (simp_all add: createOrder_catch_def sold_out_includes)

text \<open>
  C2, amended. The decrement is a conditional update: it modifies one row, taking the
  quantity off the stock, when the live stock is at least the quantity, and modifies
  nothing otherwise. In a successful placement every line of the order carries the
  product and the parsed quantity of its line of the request, and the stock of every
  product afterwards is its stock before minus the quantities that all the lines of
  the request ask of it; for a request of one line with quantity \<open>q\<close> on a stock \<open>s\<close>
  this is \<open>s - q\<close>, and \<open>q\<close> is at most \<open>s\<close>. A stock that was not negative is
  not negative afterwards. When the update of a line reports zero rows, after any
  lines before it went through, the placement is aborted with the error
  \<open>Failed to update inventory ... Possibly sold out.\<close>, which the test for a conflict
  of the \<open>catch\<close> block matches: the store is as before the request and no order is
  sent back.
\<close>

theorem createOrder_conditional_decrement:
  "(\<forall>pid q n d2. q \<noteq> 0 \<and> Product_updateOne_dec pid (Some q) d = Inr (n, d2) \<longrightarrow>
       (if (case products d pid of None \<Rightarrow> False | Some p \<Rightarrow> q \<le> p_quantity p)
        then n = 1
             \<and> products d2 = (products d)(pid := map_option (\<lambda>p. p\<lparr>p_quantity := p_quantity p - q\<rparr>) (products d pid))
        else n = 0 \<and> d2 = d))
   \<and> (\<forall>r lg d'. createOrder env userId req d = (r, lg, d') \<and> r_status r = 201 \<longrightarrow>
        (\<exists>items saved. rq_products req = Some items \<and> r_order r = Some saved
           \<and> map ol_product_id (o_products saved) = map item_key items
           \<and> map (\<lambda>l. Some (ol_quantity l)) (o_products saved)
               = map (\<lambda>item. parseInt (it_quantity item)) items
           \<and> (\<forall>pid. products d' pid =
                 map_option (\<lambda>p. p\<lparr>p_quantity := p_quantity p - asked items pid\<rparr>) (products d pid))
           \<and> (\<forall>pid p p'. products d pid = Some p \<and> products d' pid = Some p' \<and> 0 \<le> p_quantity p
                 \<longrightarrow> 0 \<le> p_quantity p')))
   \<and> (\<forall>r lg d' item q p. createOrder env userId req d = (r, lg, d') \<and> r_status r = 201
        \<and> rq_products req = Some [item] \<and> parseInt (it_quantity item) = Some q
        \<and> products d (item_key item) = Some p \<longrightarrow>
          q \<le> p_quantity p
          \<and> map_option p_quantity (products d' (item_key item)) = Some (p_quantity p - q))
   \<and> (\<forall>pre item rest d1 ls sub pid q product d2.
        rq_products req = Some (pre @ item # rest)
        \<and> process_items env pre (d, [], 0) = Inr (d1, ls, sub)
        \<and> check_item env item d1 = Inr (pid, Some q, product)
        \<and> Product_updateOne_dec pid (Some q) d1 = Inr (0, d2) \<longrightarrow>
          snd (snd (createOrder env userId req d)) = d
          \<and> fst (createOrder env userId req d) = createOrder_catch (sold_out_message (p_name product))
          \<and> str_includes (sold_out_message (p_name product)) ''sold out''
          \<and> r_order (fst (createOrder env userId req d)) = None
          \<and> r_status (fst (createOrder env userId req d)) \<noteq> 201)"
proof (intro conjI allI impI)
  fix pid q n d2
  assume "q \<noteq> 0 \<and> Product_updateOne_dec pid (Some q) d = Inr (n, d2)"
  then show "if (case products d pid of None \<Rightarrow> False | Some p \<Rightarrow> q \<le> p_quantity p)
        then n = 1
             \<and> products d2 = (products d)(pid := map_option (\<lambda>p. p\<lparr>p_quantity := p_quantity p - q\<rparr>) (products d pid))
        else n = 0 \<and> d2 = d"
    by (auto simp: Product_updateOne_dec_def split: option.splits if_splits)
next
  fix r lg d'
  assume h: "createOrder env userId req d = (r, lg, d') \<and> r_status r = 201"
  then obtain items saved where
    i: "rq_products req = Some items"
    and t: "createOrder_txn env userId (rq_total_amount req) items d = (lg, Inr (saved, d'))"
    and o: "r_order r = Some saved"
    using createOrder_201 by blast
  from createOrder_txn_Inr[OF t] obtain d1 ls sub where
    p: "process_items env items (d, [], 0) = Inr (d1, ls, sub)"
    and s: "o_products saved = ls" and pr: "products d' = products d1"
    by auto
  from process_items_Inr[OF p] s pr o i
  show "\<exists>items saved. rq_products req = Some items \<and> r_order r = Some saved
           \<and> map ol_product_id (o_products saved) = map item_key items
           \<and> map (\<lambda>l. Some (ol_quantity l)) (o_products saved)
               = map (\<lambda>item. parseInt (it_quantity item)) items
           \<and> (\<forall>pid. products d' pid =
                 map_option (\<lambda>p. p\<lparr>p_quantity := p_quantity p - asked items pid\<rparr>) (products d pid))
           \<and> (\<forall>pid p p'. products d pid = Some p \<and> products d' pid = Some p' \<and> 0 \<le> p_quantity p
                 \<longrightarrow> 0 \<le> p_quantity p')"
    by auto
next
  fix r lg d' item q p
  assume h: "createOrder env userId req d = (r, lg, d') \<and> r_status r = 201
        \<and> rq_products req = Some [item] \<and> parseInt (it_quantity item) = Some q
        \<and> products d (item_key item) = Some p"
  then obtain items saved where
    i: "rq_products req = Some items"
    and t: "createOrder_txn env userId (rq_total_amount req) items d = (lg, Inr (saved, d'))"
    using createOrder_201 by blast
  from i h have it: "items = [item]" by simp
  from createOrder_txn_Inr[OF t] it obtain d1 ls sub where
    p: "process_items env [item] (d, [], 0) = Inr (d1, ls, sub)"
    and pr: "products d' = products d1"
    by auto
  from p have step: "process_item env item (d, [], 0) = Inr (d1, ls, sub)"
    by (auto split: sum.splits)
  from process_item_Inr[OF step] h pr
  show "q \<le> p_quantity p" and "map_option p_quantity (products d' (item_key item)) = Some (p_quantity p - q)"
    by auto
next
  fix pre item rest d1 ls sub pid q product d2
  assume h: "rq_products req = Some (pre @ item # rest)
        \<and> process_items env pre (d, [], 0) = Inr (d1, ls, sub)
        \<and> check_item env item d1 = Inr (pid, Some q, product)
        \<and> Product_updateOne_dec pid (Some q) d1 = Inr (0, d2)"
  then have "process_item env item (d1, ls, sub) = Inl (sold_out_message (p_name product))"
    using process_item_zero_rows by blast
  with h have "process_items env (pre @ item # rest) (d, [], 0) = Inl (sold_out_message (p_name product))"
    by (simp add: process_items_append)
  with h have e: "createOrder env userId req d
      = (createOrder_catch (sold_out_message (p_name product)), [], d)"
    using createOrder_loop_error by blast
  show "snd (snd (createOrder env userId req d)) = d"
    by (simp add: e)
  show "fst (createOrder env userId req d) = createOrder_catch (sold_out_message (p_name product))"
    by (simp add: e)
  show "str_includes (sold_out_message (p_name product)) ''sold out''"
    by (rule sold_out_includes)
  show "r_order (fst (createOrder env userId req d)) = None"
    by (simp add: e createOrder_catch_sold_out)
  show "r_status (fst (createOrder env userId req d)) \<noteq> 201"
    by (simp add: e createOrder_catch_status)
qed

lemmas race_eval = placement_eval sold_out_message_def racing_def racing_invalid_def outlet_def
  invalid_runner_def ledger_def runner_order_def

text \<open>
  C2, as stated, fails twice. Two lines name the same product, with quantities 2 and 1
  against a stock of 5: the placement succeeds and the stock afterwards is 2, neither
  5 - 2 nor 5 - 1. And for a product named \<open>Invalid Runner\<close> the lost race is
  answered 400, not with a conflict: the message of the error holds the name, and the
  \<open>catch\<close> block finds \<open>Invalid\<close> in it before it looks for \<open>sold out\<close>.
\<close>

theorem createOrder_conditional_decrement_counterexample:
  "r_status (fst (createOrder quiet ''u1'' \<lparr>rq_products = Some [line 2, line 1], rq_total_amount = None\<rparr> shop))
     = 201
   \<and> map_option p_quantity (products shop runner_id) = Some 5
   \<and> map_option p_quantity
       (products (snd (snd (createOrder quiet ''u1''
           \<lparr>rq_products = Some [line 2, line 1], rq_total_amount = None\<rparr> shop))) runner_id)
     = Some 2
   \<and> check_item racing_invalid (line 3) outlet = Inr (runner_id, Some 3, invalid_runner)
   \<and> Product_updateOne_dec runner_id (Some 3) outlet = Inr (0, outlet)
   \<and> r_status (fst (createOrder racing_invalid ''u1''
        \<lparr>rq_products = Some [line 3], rq_total_amount = None\<rparr> outlet)) = 400"
  by (simp add: race_eval)


text \<open>
  Three units of five are ordered, in one line and in two; and three units are asked
  for when a concurrent order has left two, which the read does not show yet.
\<close>

theorem createOrder_conditional_decrement_witness:
  "Product_updateOne_dec runner_id (Some 3) (ledger Pending) = Inr (0, ledger Pending)
   \<and> r_status (fst (createOrder quiet ''u1'' \<lparr>rq_products = Some [line 3], rq_total_amount = None\<rparr> shop)) = 201
   \<and> parseInt (it_quantity (line 3)) = Some 3 \<and> item_key (line 3) = runner_id
   \<and> map_option p_quantity (products shop runner_id) = Some 5
   \<and> map_option p_quantity
       (products (snd (snd (createOrder quiet ''u1''
           \<lparr>rq_products = Some [line 3], rq_total_amount = None\<rparr> shop))) runner_id)
     = Some 2
   \<and> map_option p_quantity
       (products (snd (snd (createOrder quiet ''u1''
           \<lparr>rq_products = Some [line 2, line 1], rq_total_amount = None\<rparr> shop))) runner_id)
     = Some 2
   \<and> check_item racing (line 3) (ledger Pending) = Inr (runner_id, Some 3, runner)
   \<and> r_status (fst (createOrder racing ''u1''
        \<lparr>rq_products = Some [line 3], rq_total_amount = None\<rparr> (ledger Pending))) = 409
   \<and> snd (snd (createOrder racing ''u1''
        \<lparr>rq_products = Some [line 3], rq_total_amount = None\<rparr> (ledger Pending))) = ledger Pending"
proof -
  let ?req = "\<lparr>rq_products = Some [line 3], rq_total_amount = None\<rparr>"
  let ?two = "\<lparr>rq_products = Some [line 2, line 1], rq_total_amount = None\<rparr>"
  let ?C = "createOrder quiet ''u1'' ?req shop"
  let ?D = "createOrder quiet ''u1'' ?two shop"
  have u: "Product_updateOne_dec runner_id (Some 3) (ledger Pending) = Inr (0, ledger Pending)"
    by (simp add: race_eval)
  have k: "parseInt (it_quantity (line 3)) = Some 3 \<and> item_key (line 3) = runner_id"
    by (simp add: line_def item_key_def ObjectId_def hex_lower_def runner_id_def)
  have s: "products shop runner_id = Some runner \<and> p_quantity runner = 5"
    by (simp add: shop_def runner_def)
  have c: "?C = (fst ?C, fst (snd ?C), snd (snd ?C)) \<and> r_status (fst ?C) = 201
             \<and> rq_products ?req = Some [line 3] \<and> parseInt (it_quantity (line 3)) = Some 3
             \<and> products shop (item_key (line 3)) = Some runner"
    using k s by (simp add: placement_eval)
  from createOrder_conditional_decrement
         [of shop quiet "''u1''" ?req, THEN conjunct2, THEN conjunct2, THEN conjunct1, rule_format,
          of "fst ?C" "fst (snd ?C)" "snd (snd ?C)" "line 3" 3 runner, OF c] k s
  have 2: "map_option p_quantity (products (snd (snd ?C)) runner_id) = Some 2"
    by simp
  have dd: "?D = (fst ?D, fst (snd ?D), snd (snd ?D)) \<and> r_status (fst ?D) = 201"
    by (simp add: placement_eval)
  from createOrder_conditional_decrement
         [of shop quiet "''u1''" ?two, THEN conjunct2, THEN conjunct1, rule_format,
          of "fst ?D" "fst (snd ?D)" "snd (snd ?D)", OF dd]
  obtain items where i: "rq_products ?two = Some items"
    and p: "\<forall>pid. products (snd (snd ?D)) pid =
                 map_option (\<lambda>p. p\<lparr>p_quantity := p_quantity p - asked items pid\<rparr>) (products shop pid)"
    by blast
  from i have "items = [line 2, line 1]" by simp
  with p s have 3: "map_option p_quantity (products (snd (snd ?D)) runner_id) = Some 2"
    by (simp add: asked_def item_key_def line_def ObjectId_def hex_lower_def runner_id_def)
  have r: "rq_products ?req = Some ([] @ line 3 # [])
        \<and> process_items racing [] (ledger Pending, [], 0) = Inr (ledger Pending, [], 0)
        \<and> check_item racing (line 3) (ledger Pending) = Inr (runner_id, Some 3, runner)
        \<and> Product_updateOne_dec runner_id (Some 3) (ledger Pending) = Inr (0, ledger Pending)"
    by (simp add: race_eval)
  have m: "r_status (createOrder_catch (sold_out_message (p_name runner))) = 409"
    by (simp add: createOrder_catch_def sold_out_message_def runner_def)
  from createOrder_conditional_decrement
         [of "ledger Pending" racing "''u1''" ?req, THEN conjunct2, THEN conjunct2, THEN conjunct2,
          rule_format, OF r] m
  have 4: "r_status (fst (createOrder racing ''u1'' ?req (ledger Pending))) = 409
     \<and> snd (snd (createOrder racing ''u1'' ?req (ledger Pending))) = ledger Pending"
    by simp
  from u c k s 2 3 r 4 show ?thesis by simp
qed

section \<open>What order placement does hold\<close>

text \<open>
  The order of a successful placement: the subtotal is the value of its lines at the
  prices read during the placement, the shipping is 10 up to a subtotal of 100 and 0
  above, and the total is subtotal plus shipping once the subtotal is above 0.125; up
  to there the tax of 8 percent stays in the total.
\<close>

lemma createOrder_totals:
  assumes "createOrder env userId req d = (r, lg, d')" and "r_status r = 201"
  shows "\<exists>saved. r_order r = Some saved \<and> orders d' (new_order_id env) = Some saved
     \<and> o_subtotal saved = lines_subtotal (o_products saved)
     \<and> o_shipping saved = (if o_subtotal saved > 100 then 0 else 10)
     \<and> 0 \<le> o_subtotal saved
     \<and> o_total_amount saved =
         (if o_subtotal saved > 1 / 8 then o_subtotal saved + o_shipping saved
          else o_subtotal saved + o_shipping saved + o_subtotal saved * (8 / 100))"
proof -
  from assms obtain items saved where
    t: "createOrder_txn env userId (rq_total_amount req) items d = (lg, Inr (saved, d'))"
    and o: "r_order r = Some saved"
    using createOrder_201 by blast
  from createOrder_txn_Inr[OF t] obtain d1 ls sub where
    p: "process_items env items (d, [], 0) = Inr (d1, ls, sub)"
    and s: "saved = pre_save \<lparr>o_user_id = userId, o_products = ls, o_subtotal = sub,
                         o_shipping = (if sub > 100 then 0 else 10),
                         o_total_amount = sub + (if sub > 100 then 0 else 10) + sub * (8 / 100),
                         o_order_status = Pending\<rparr>"
    and w: "orders d' = (orders d1)(new_order_id env \<mapsto> saved)"
    and v: "0 \<le> sub"
    by auto
  from process_items_Inr[OF p] have l: "sub = lines_subtotal ls"
    by auto
  have tot: "o_total_amount saved =
         (if sub > 1 / 8 then sub + (if sub > 100 then 0 else 10)
          else sub + (if sub > 100 then 0 else 10) + sub * (8 / 100))"
    using v by (auto simp: s pre_save_def Let_def abs_if)
  from o w l v tot s show ?thesis
    by auto
qed

text \<open>
  A line with a malformed identifier or a quantity outside 1 to 10 is answered 400; a
  line with a field missing is answered 500.
\<close>

lemma check_item_malformed:
  assumes "\<not> falsy (it_product_id item)" and "\<not> falsy (it_quantity item)" and "\<not> falsy (it_size item)"
    and "\<not> ObjectId_isValid (it_product_id item)
         \<or> num_le (parseInt (it_quantity item)) 0 \<or> num_gt (parseInt (it_quantity item)) 10"
  shows "\<exists>msg. check_item env item d = Inl msg \<and> r_status (createOrder_catch msg) = 400"
  using assms str_includes_prefix[of "''Invalid''"]
  by (auto simp: check_item_def createOrder_catch_def Let_def)

lemma check_item_missing_field:
  assumes "falsy (it_product_id item) \<or> falsy (it_quantity item) \<or> falsy (it_size item)"
  shows "check_item env item d = Inl ''Each product must have product_id, quantity, and size''
     \<and> r_status (createOrder_catch ''Each product must have product_id, quantity, and size'') = 500"
  using assms by (auto simp: check_item_def createOrder_catch_def)

section \<open>The orders of the store pass the validators\<close>

text \<open>
  The handlers store only orders that pass the validators of the schema: when every
  order of the store passes them before a request, every order passes them after it.
\<close>

lemma createOrder_keeps_orders_valid:
  assumes "\<forall>oid order. orders d oid = Some order \<longrightarrow> Order_validate order"
  shows "\<forall>oid order. orders (snd (snd (createOrder env userId req d))) oid = Some order
           \<longrightarrow> Order_validate order"
proof (cases "rq_products req")
  case None
  with assms show ?thesis by (simp add: createOrder_by_txn)
next
  case (Some items)
  show ?thesis
  proof (cases items)
    case Nil
    with Some assms show ?thesis by (simp add: createOrder_by_txn)
  next
    case (Cons item rest)
    obtain lg res where body: "createOrder_txn env userId (rq_total_amount req) (item # rest) d = (lg, res)"
      by (cases "createOrder_txn env userId (rq_total_amount req) (item # rest) d") auto
    show ?thesis
    proof (cases res)
      case (Inl e)
      with body Some Cons assms show ?thesis by (simp add: createOrder_by_txn)
    next
      case (Inr ok)
      obtain saved d' where ok: "ok = (saved, d')"
        by (cases ok) auto
      from createOrder_txn_Inr[of env userId "rq_total_amount req" "item # rest" d lg saved d'] body Inr ok
      obtain d1 ls sub where p: "process_items env (item # rest) (d, [], 0) = Inr (d1, ls, sub)"
        and v: "Order_validate saved"
        and w: "orders d' = (orders d1)(new_order_id env \<mapsto> saved)"
        by auto
      from process_items_Inr[OF p] have "orders d1 = orders d"
        by auto
      with w v assms have "\<forall>oid order. orders d' oid = Some order \<longrightarrow> Order_validate order"
        by auto
      with body Inr ok Some Cons show ?thesis by (simp add: createOrder_by_txn)
    qed
  qed
qed

lemma updateOrderStatus_keeps_orders_valid:
  assumes "\<forall>oid order. orders d oid = Some order \<longrightarrow> Order_validate order"
  shows "\<forall>oid order. orders (snd (updateOrderStatus env orderId status d)) oid = Some order
           \<longrightarrow> Order_validate order"
  using assms
  by (auto simp: updateOrderStatus_def withTransaction_def updateOrderStatus_txn_def Order_save_def Let_def
      pre_save_validate split: option.splits if_splits)

lemma deleteOrder_keeps_orders_valid:
  assumes "\<forall>oid order. orders d oid = Some order \<longrightarrow> Order_validate order"
  shows "\<forall>oid order. orders (snd (deleteOrder env user orderId d)) oid = Some order
           \<longrightarrow> Order_validate order"
  using assms
  by (auto simp: deleteOrder_def withTransaction_def deleteOrder_txn_def Order_deleteOne_def Let_def
      split: option.splits if_splits)

end
